theory Spec2Isabelle
  imports Complex_Main
begin

section \<open>JavaScript numbers\<close>

text \<open>
  Every numeric value of the program is a JavaScript \<^verbatim>\<open>number\<close>.  A number is modelled
  as one of the three special values or a finite value.  Finite values are exact reals:
  rounding, overflow of a finite result and the sign of zero are not modelled.  The special
  values follow ECMAScript: \<^verbatim>\<open>NaN\<close> is absorbing for arithmetic, every comparison with
  \<^verbatim>\<open>NaN\<close> is false, \<^verbatim>\<open>Infinity - Infinity\<close> and \<^verbatim>\<open>Infinity * 0\<close> are \<^verbatim>\<open>NaN\<close>.

  The program computes in binary64, where a finite result is rounded and may overflow
  to an infinity.  Where a property would otherwise depend on that, it is stated through
  the program's own operations (\<open>js_add\<close>, \<open>js_mul\<close>, \<open>Math_hypot\<close> and so on), through
  order rather than strict order, or under the condition that a computed value is
  finite.
\<close>

datatype number = NaN | NegInf | Fin real | PosInf

fun js_neg :: "number \<Rightarrow> number" where
  "js_neg NaN = NaN"
| "js_neg NegInf = PosInf"
| "js_neg (Fin a) = Fin (- a)"
| "js_neg PosInf = NegInf"

fun js_add :: "number \<Rightarrow> number \<Rightarrow> number" where
  "js_add (Fin a) (Fin b) = Fin (a + b)"
| "js_add NaN _ = NaN"
| "js_add _ NaN = NaN"
| "js_add PosInf NegInf = NaN"
| "js_add NegInf PosInf = NaN"
| "js_add PosInf _ = PosInf"
| "js_add _ PosInf = PosInf"
| "js_add NegInf _ = NegInf"
| "js_add _ NegInf = NegInf"

definition js_sub :: "number \<Rightarrow> number \<Rightarrow> number" where
  "js_sub a b = js_add a (js_neg b)"

text \<open>The infinity carrying the sign of \<open>s\<close>; \<^verbatim>\<open>NaN\<close> when \<open>s\<close> is zero.\<close>

definition signed_inf :: "real \<Rightarrow> number" where
  "signed_inf s = (if s = 0 then NaN else if 0 < s then PosInf else NegInf)"

fun js_mul :: "number \<Rightarrow> number \<Rightarrow> number" where
  "js_mul (Fin a) (Fin b) = Fin (a * b)"
| "js_mul NaN _ = NaN"
| "js_mul _ NaN = NaN"
| "js_mul PosInf (Fin b) = signed_inf b"
| "js_mul NegInf (Fin b) = signed_inf (- b)"
| "js_mul (Fin a) PosInf = signed_inf a"
| "js_mul (Fin a) NegInf = signed_inf (- a)"
| "js_mul PosInf PosInf = PosInf"
| "js_mul NegInf NegInf = PosInf"
| "js_mul PosInf NegInf = NegInf"
| "js_mul NegInf PosInf = NegInf"

text \<open>
  Division never throws.  A finite nonzero value divided by zero is an infinity (the zero
  divisor is taken as \<^verbatim>\<open>+0\<close>), and \<^verbatim>\<open>0 / 0\<close> is \<^verbatim>\<open>NaN\<close>.
\<close>

fun js_div :: "number \<Rightarrow> number \<Rightarrow> number" where
  "js_div (Fin a) (Fin b) = (if b = 0 then signed_inf a else Fin (a / b))"
| "js_div NaN _ = NaN"
| "js_div _ NaN = NaN"
| "js_div (Fin a) _ = Fin 0"
| "js_div PosInf (Fin b) = (if 0 \<le> b then PosInf else NegInf)"
| "js_div NegInf (Fin b) = (if 0 \<le> b then NegInf else PosInf)"
| "js_div _ _ = NaN"

text \<open>The relational operators \<^verbatim>\<open><\<close>, \<^verbatim>\<open>>\<close> and \<^verbatim>\<open><=\<close>.\<close>

fun js_lt :: "number \<Rightarrow> number \<Rightarrow> bool" where
  "js_lt (Fin a) (Fin b) = (a < b)"
| "js_lt NaN _ = False"
| "js_lt _ NaN = False"
| "js_lt _ NegInf = False"
| "js_lt NegInf _ = True"
| "js_lt PosInf _ = False"
| "js_lt _ PosInf = True"

definition js_gt :: "number \<Rightarrow> number \<Rightarrow> bool" where
  "js_gt a b = js_lt b a"

definition js_le :: "number \<Rightarrow> number \<Rightarrow> bool" where
  "js_le a b = (a \<noteq> NaN \<and> b \<noteq> NaN \<and> \<not> js_lt b a)"

text \<open>\<^verbatim>\<open>Math.max\<close> and \<^verbatim>\<open>Math.min\<close> of two arguments: \<^verbatim>\<open>NaN\<close> if either argument is.\<close>

definition Math_max :: "number \<Rightarrow> number \<Rightarrow> number" where
  "Math_max a b = (if a = NaN \<or> b = NaN then NaN else if js_lt a b then b else a)"

definition Math_min :: "number \<Rightarrow> number \<Rightarrow> number" where
  "Math_min a b = (if a = NaN \<or> b = NaN then NaN else if js_lt b a then b else a)"

text \<open>
  \<^verbatim>\<open>Math.hypot\<close> of two arguments: \<^verbatim>\<open>Infinity\<close> if either argument is infinite (even when
  the other is \<^verbatim>\<open>NaN\<close>), otherwise \<^verbatim>\<open>NaN\<close> if either is \<^verbatim>\<open>NaN\<close>.
\<close>

definition is_inf :: "number \<Rightarrow> bool" where
  "is_inf a = (a = PosInf \<or> a = NegInf)"

fun Math_hypot :: "number \<Rightarrow> number \<Rightarrow> number" where
  "Math_hypot (Fin a) (Fin b) = Fin (sqrt (a * a + b * b))"
| "Math_hypot a b = (if is_inf a \<or> is_inf b then PosInf else NaN)"

fun Math_cos :: "number \<Rightarrow> number" where
  "Math_cos (Fin a) = Fin (cos a)"
| "Math_cos _ = NaN"

fun Math_sin :: "number \<Rightarrow> number" where
  "Math_sin (Fin a) = Fin (sin a)"
| "Math_sin _ = NaN"

definition Math_PI :: number where
  "Math_PI = Fin pi"

section \<open>Vectors and helpers of the rotor program\<close>

text \<open>
  The helpers \<^verbatim>\<open>rotate\<close> and \<^verbatim>\<open>dist\<close> of the source are \<open>rotate_vec\<close> and \<open>dist_vec\<close>
  here, and the fields \<^verbatim>\<open>x\<close>, \<^verbatim>\<open>y\<close> of a \<^verbatim>\<open>Vec2\<close> are \<open>vec_x\<close>, \<open>vec_y\<close>.
\<close>

record Vec2 =
  vec_x :: number
  vec_y :: number

definition add :: "Vec2 \<Rightarrow> Vec2 \<Rightarrow> Vec2" where
  "add a b = \<lparr>vec_x = js_add (vec_x a) (vec_x b), vec_y = js_add (vec_y a) (vec_y b)\<rparr>"

definition rotate_vec :: "Vec2 \<Rightarrow> number \<Rightarrow> Vec2" where
  "rotate_vec v angleRad =
     (let c = Math_cos angleRad;
          s = Math_sin angleRad
      in \<lparr>vec_x = js_sub (js_mul (vec_x v) c) (js_mul (vec_y v) s),
          vec_y = js_add (js_mul (vec_x v) s) (js_mul (vec_y v) c)\<rparr>)"

definition clamp :: "number \<Rightarrow> number \<Rightarrow> number \<Rightarrow> number" where
  "clamp v mn mx = Math_min (Math_max v mn) mx"

definition dist_vec :: "Vec2 \<Rightarrow> Vec2 \<Rightarrow> number" where
  "dist_vec a b =
     (let dx = js_sub (vec_x a) (vec_x b);
          dy = js_sub (vec_y a) (vec_y b)
      in Math_hypot dx dy)"

section \<open>Parameters and program state\<close>

datatype PointId = TopL | TopR | BotL | BotR

text \<open>
  A traced point; the field \<^verbatim>\<open>id\<close> of the source is \<open>pid\<close>.  The optional fields
  \<^verbatim>\<open>prev?\<close> and \<^verbatim>\<open>now?\<close> are \<open>None\<close> when \<^verbatim>\<open>undefined\<close>.
\<close>

record TracedPoint =
  pid :: PointId
  prev :: "Vec2 option"
  now :: "Vec2 option"

record Motion =
  timeScale :: number
  omegaGlobal :: number
  omegaTop :: number
  omegaBottom :: number
  dtClampMax :: number

record Geometry =
  axisOffsetRatio :: number
  armLenRatio :: number
  topPhaseOffset :: number
  bottomPhaseOffset :: number

text \<open>Of \<^verbatim>\<open>params.trails\<close> only the fields that decide what is painted where are kept.\<close>

record Trails =
  fadeAlpha :: number
  maxSegmentRatio :: number

record State =
  thetaGlobal :: number
  thetaTop :: number
  thetaBottom :: number
  timerMs :: number

text \<open>
  \<^verbatim>\<open>params\<close> without its purely visual groups (\<^verbatim>\<open>overlay\<close>, \<^verbatim>\<open>colors\<close>); the
  \<^verbatim>\<open>actions\<close> are the functions \<open>actions_clearTrails\<close>, \<open>actions_resetAngles\<close> and
  \<open>actions_resetAll\<close> below.
\<close>

record Params =
  running :: bool
  motion :: Motion
  geometry :: Geometry
  trails :: Trails
  state :: State

text \<open>The value returned by \<^verbatim>\<open>getGeometry\<close>.\<close>

record Snapshot =
  center :: Vec2
  topAxis :: Vec2
  bottomAxis :: Vec2
  topL :: Vec2
  topR :: Vec2
  botL :: Vec2
  botR :: Vec2

text \<open>
  The trail canvas is the list of paint operations applied since it was last filled
  black, newest first, so the empty list is the blank surface.  \<open>Segment i p q\<close> records
  one \<^verbatim>\<open>drawTrailSegment\<close> call that passed its guard, for the segment from \<open>p\<close> to \<open>q\<close> in
  the colour of point \<open>i\<close>.  How often that call strokes the segment (its loop over
  \<^verbatim>\<open>params.trails.passes\<close>, which strokes nothing when \<^verbatim>\<open>passes\<close> is not positive) and the
  stroke style are not modelled.
\<close>

datatype Paint = Fade number | Segment PointId Vec2 Vec2

text \<open>
  The module-level variables: \<^verbatim>\<open>params\<close>, \<^verbatim>\<open>points\<close>, the viewport size \<^verbatim>\<open>w\<close>, \<^verbatim>\<open>h\<close>
  (\<open>win_w\<close>, \<open>win_h\<close>), and the two canvases.  The overlay canvas is cleared by every
  \<^verbatim>\<open>drawOverlay\<close>, so it is the geometry and timer value last drawn.
\<close>

record World =
  params :: Params
  points :: "TracedPoint list"
  win_w :: number
  win_h :: number
  trailsCanvas :: "Paint list"
  overlayCanvas :: "(Snapshot \<times> number) option"

definition defaultParams :: Params where
  "defaultParams =
     \<lparr>running = True,
      motion = \<lparr>timeScale = Fin 1, omegaGlobal = Fin (45 / 100), omegaTop = Fin 2,
                omegaBottom = Fin (- 2), dtClampMax = Fin (5 / 100)\<rparr>,
      geometry = \<lparr>axisOffsetRatio = Fin (22 / 100), armLenRatio = Fin (18 / 100),
                  topPhaseOffset = Fin 0, bottomPhaseOffset = Fin 0\<rparr>,
      trails = \<lparr>fadeAlpha = Fin (1 / 100), maxSegmentRatio = Fin (5 / 100)\<rparr>,
      state = \<lparr>thetaGlobal = Fin 0, thetaTop = Fin 0, thetaBottom = Fin 0, timerMs = Fin 0\<rparr>\<rparr>"

definition initialPoints :: "TracedPoint list" where
  "initialPoints =
     [\<lparr>pid = TopL, prev = None, now = None\<rparr>,
      \<lparr>pid = TopR, prev = None, now = None\<rparr>,
      \<lparr>pid = BotL, prev = None, now = None\<rparr>,
      \<lparr>pid = BotR, prev = None, now = None\<rparr>]"

text \<open>The state after start-up with no URL overrides, in a viewport of the given size.\<close>

definition initialWorld :: "number \<Rightarrow> number \<Rightarrow> World" where
  "initialWorld vw vh =
     \<lparr>params = defaultParams, points = initialPoints, win_w = vw, win_h = vh,
      trailsCanvas = [], overlayCanvas = None\<rparr>"

section \<open>Geometry solver\<close>

definition degToRad :: "number \<Rightarrow> number" where
  "degToRad deg = js_div (js_mul deg Math_PI) (Fin 180)"

definition getGeometry :: "World \<Rightarrow> Snapshot" where
  "getGeometry s =
     (let minDim = Math_min (win_w s) (win_h s);
          center = \<lparr>vec_x = js_div (win_w s) (Fin 2), vec_y = js_div (win_h s) (Fin 2)\<rparr>;
          axisOffset = js_mul (axisOffsetRatio (geometry (params s))) minDim;
          armLen = js_mul (armLenRatio (geometry (params s))) minDim;
          topAxis = add center
            (rotate_vec \<lparr>vec_x = Fin 0, vec_y = js_neg axisOffset\<rparr> (thetaGlobal (state (params s))));
          bottomAxis = add center
            (rotate_vec \<lparr>vec_x = Fin 0, vec_y = axisOffset\<rparr> (thetaGlobal (state (params s))));
          topArmAngle = js_add
            (js_add (thetaGlobal (state (params s))) (thetaTop (state (params s))))
            (degToRad (topPhaseOffset (geometry (params s))));
          bottomArmAngle = js_add
            (js_add (thetaGlobal (state (params s))) (thetaBottom (state (params s))))
            (degToRad (bottomPhaseOffset (geometry (params s))));
          armVecR = (\<lambda>angle. rotate_vec \<lparr>vec_x = armLen, vec_y = Fin 0\<rparr> angle);
          armVecL = (\<lambda>angle. rotate_vec \<lparr>vec_x = js_neg armLen, vec_y = Fin 0\<rparr> angle)
      in \<lparr>center = center, topAxis = topAxis, bottomAxis = bottomAxis,
          topL = add topAxis (armVecL topArmAngle),
          topR = add topAxis (armVecR topArmAngle),
          botL = add bottomAxis (armVecL bottomArmAngle),
          botR = add bottomAxis (armVecR bottomArmAngle)\<rparr>)"

text \<open>The table \<^verbatim>\<open>nextPositions\<close> built from a snapshot in \<^verbatim>\<open>step\<close> and \<^verbatim>\<open>syncPointsToGeometry\<close>.\<close>

fun nextPositions :: "Snapshot \<Rightarrow> PointId \<Rightarrow> Vec2" where
  "nextPositions geom TopL = topL geom"
| "nextPositions geom TopR = topR geom"
| "nextPositions geom BotL = botL geom"
| "nextPositions geom BotR = botR geom"

section \<open>Rendering and trail bookkeeping\<close>

definition clearTrails :: "World \<Rightarrow> World" where
  "clearTrails s =
     s\<lparr>points := map (\<lambda>p. p\<lparr>prev := None, now := None\<rparr>) (points s),
       trailsCanvas := []\<rparr>"

definition fadeTrails :: "World \<Rightarrow> World" where
  "fadeTrails s = s\<lparr>trailsCanvas := Fade (fadeAlpha (trails (params s))) # trailsCanvas s\<rparr>"

definition drawTrailSegment :: "TracedPoint \<Rightarrow> World \<Rightarrow> World" where
  "drawTrailSegment p s =
     (case (prev p, now p) of
        (Some a, Some b) \<Rightarrow> s\<lparr>trailsCanvas := Segment (pid p) a b # trailsCanvas s\<rparr>
      | _ \<Rightarrow> s)"

definition drawOverlay :: "Snapshot \<Rightarrow> World \<Rightarrow> World" where
  "drawOverlay geom s = s\<lparr>overlayCanvas := Some (geom, timerMs (state (params s)))\<rparr>"

definition syncPointsToGeometry :: "Snapshot \<Rightarrow> World \<Rightarrow> World" where
  "syncPointsToGeometry geom s =
     s\<lparr>points :=
         map (\<lambda>p. let next = nextPositions geom (pid p)
                  in p\<lparr>now := Some next, prev := Some next\<rparr>) (points s)\<rparr>"

definition renderPausedState :: "World \<Rightarrow> World" where
  "renderPausedState s =
     (let geom = getGeometry s
      in drawOverlay geom (syncPointsToGeometry geom s))"

section \<open>Actions\<close>

definition actions_clearTrails :: "World \<Rightarrow> World" where
  "actions_clearTrails s =
     (let s1 = clearTrails s;
          s2 = s1\<lparr>params := (params s1)\<lparr>state := (state (params s1))\<lparr>timerMs := Fin 0\<rparr>\<rparr>\<rparr>
      in if \<not> running (params s2) then renderPausedState s2 else s2)"

definition actions_resetAngles :: "World \<Rightarrow> World" where
  "actions_resetAngles s =
     (let s1 = s\<lparr>params := (params s)\<lparr>state := (state (params s))
                 \<lparr>thetaGlobal := Fin 0, thetaTop := Fin 0, thetaBottom := Fin 0\<rparr>\<rparr>\<rparr>
      in if \<not> running (params s1) then renderPausedState s1 else s1)"

definition actions_resetAll :: "World \<Rightarrow> World" where
  "actions_resetAll s = actions_clearTrails (actions_resetAngles s)"

section \<open>Integrator step and continuity tracking\<close>

text \<open>The body of the loop over \<^verbatim>\<open>points\<close> in \<^verbatim>\<open>step\<close>, for one point.\<close>

definition updatePoint :: "number \<Rightarrow> (PointId \<Rightarrow> Vec2) \<Rightarrow> TracedPoint \<Rightarrow> TracedPoint" where
  "updatePoint maxSegment nextPos p =
     (let next = nextPos (pid p)
      in case now p of
           None \<Rightarrow> p\<lparr>now := Some next, prev := Some next\<rparr>
         | Some cur \<Rightarrow>
             if js_gt (dist_vec cur next) maxSegment
             then p\<lparr>now := Some next, prev := Some next\<rparr>
             else p\<lparr>prev := Some cur, now := Some next\<rparr>)"

text \<open>The first five lines of \<^verbatim>\<open>step\<close>: the clamped, scaled time step and the accumulation.\<close>

definition effectiveStep :: "number \<Rightarrow> Motion \<Rightarrow> number" where
  "effectiveStep dt m = js_mul (clamp dt (Fin 0) (dtClampMax m)) (timeScale m)"

definition integrate :: "number \<Rightarrow> World \<Rightarrow> World" where
  "integrate dt s =
     (let m = motion (params s);
          dts = effectiveStep dt m;
          st = state (params s)
      in s\<lparr>params := (params s)\<lparr>state :=
            st\<lparr>thetaGlobal := js_add (thetaGlobal st) (js_mul (omegaGlobal m) dts),
               thetaTop := js_add (thetaTop st) (js_mul (omegaTop m) dts),
               thetaBottom := js_add (thetaBottom st) (js_mul (omegaBottom m) dts),
               timerMs := js_add (timerMs st) (js_mul dts (Fin 1000))\<rparr>\<rparr>\<rparr>)"

definition step :: "number \<Rightarrow> World \<Rightarrow> World" where
  "step dt s =
     (let s1 = integrate dt s;
          geom = getGeometry s1;
          maxSegment = js_mul (maxSegmentRatio (trails (params s1)))
                         (Math_min (win_w s1) (win_h s1));
          s2 = s1\<lparr>points := map (updatePoint maxSegment (nextPositions geom)) (points s1)\<rparr>;
          s3 = fadeTrails s2;
          s4 = fold drawTrailSegment (points s3) s3
      in drawOverlay geom s4)"

section \<open>Point vortices and particles\<close>

text \<open>
  The helpers \<^verbatim>\<open>set\<close> and \<^verbatim>\<open>length\<close> of \<^verbatim>\<open>utils/math.ts\<close> are \<open>set_vec\<close> and
  \<open>length_vec\<close>.  A function that writes into an \<^verbatim>\<open>out\<close> vector returns the new vector.
\<close>

definition length_vec :: "number \<Rightarrow> number \<Rightarrow> number" where
  "length_vec a b = Math_hypot a b"

definition set_vec :: "Vec2 \<Rightarrow> number \<Rightarrow> number \<Rightarrow> Vec2" where
  "set_vec out a b = out\<lparr>vec_x := a, vec_y := b\<rparr>"

definition EPSILON :: number where
  "EPSILON = Fin 25"

definition TWO_PI :: number where
  "TWO_PI = js_mul Math_PI (Fin 2)"

record Vortex =
  position :: Vec2
  gamma :: number

text \<open>The divisor \<^verbatim>\<open>TWO_PI * r2\<close> of \<^verbatim>\<open>Vortex.velocityAt\<close>.\<close>

definition velocityDivisor :: "Vortex \<Rightarrow> Vec2 \<Rightarrow> number \<Rightarrow> number" where
  "velocityDivisor v point epsilon =
     (let dx = js_sub (vec_x point) (vec_x (position v));
          dy = js_sub (vec_y point) (vec_y (position v));
          r2 = js_add (js_add (js_mul dx dx) (js_mul dy dy)) epsilon
      in js_mul TWO_PI r2)"

definition velocityAt :: "Vortex \<Rightarrow> Vec2 \<Rightarrow> number \<Rightarrow> Vec2 \<Rightarrow> Vec2" where
  "velocityAt v point epsilon out =
     (let dx = js_sub (vec_x point) (vec_x (position v));
          dy = js_sub (vec_y point) (vec_y (position v));
          factor = js_div (gamma v) (velocityDivisor v point epsilon)
      in set_vec out (js_mul factor (js_neg dy)) (js_mul factor dx))"

record Particle =
  part_position :: Vec2
  previousPosition :: Vec2
  velocity :: Vec2
  tmp :: Vec2

text \<open>
  \<^verbatim>\<open>Particle.step\<close>: the loop over the vortices threads the scratch vector \<^verbatim>\<open>tmp\<close> and
  the sums \<^verbatim>\<open>vx\<close>, \<^verbatim>\<open>vy\<close>; the result is the updated particle and the returned speed.
\<close>

fun sumVelocities :: "Vec2 \<Rightarrow> number \<Rightarrow> Vortex list \<Rightarrow> Vec2 \<times> number \<times> number
    \<Rightarrow> Vec2 \<times> number \<times> number" where
  "sumVelocities pos epsilon [] acc = acc"
| "sumVelocities pos epsilon (vortex # rest) (t, vx, vy) =
     (let t' = velocityAt vortex pos epsilon t
      in sumVelocities pos epsilon rest (t', js_add vx (vec_x t'), js_add vy (vec_y t')))"

definition Particle_step :: "Particle \<Rightarrow> Vortex list \<Rightarrow> number \<Rightarrow> number \<Rightarrow> Particle \<times> number" where
  "Particle_step p vortices dt epsilon =
     (let pos = part_position p;
          prevPos = set_vec (previousPosition p) (vec_x pos) (vec_y pos);
          (t, vx, vy) = sumVelocities pos epsilon vortices (tmp p, Fin 0, Fin 0);
          vel = set_vec (velocity p) vx vy;
          pos' = pos\<lparr>vec_x := js_add (vec_x pos) (js_mul vx dt),
                     vec_y := js_add (vec_y pos) (js_mul vy dt)\<rparr>
      in (\<lparr>part_position = pos', previousPosition = prevPos, velocity = vel, tmp = t\<rparr>,
          length_vec vx vy))"

section \<open>Keyboard control\<close>

text \<open>
  \<^verbatim>\<open>String.prototype.toLowerCase\<close> on ASCII text, which is all the comparison with
  \<^verbatim>\<open>'r'\<close> needs.
\<close>

definition lower_char :: "char \<Rightarrow> char" where
  "lower_char c =
     (if 65 \<le> (of_char c :: nat) \<and> (of_char c :: nat) \<le> 90
      then char_of ((of_char c :: nat) + 32) else c)"

definition toLowerCase :: "string \<Rightarrow> string" where
  "toLowerCase k = map lower_char k"

text \<open>The fields \<^verbatim>\<open>code\<close> and \<^verbatim>\<open>key\<close> of a \<^verbatim>\<open>KeyboardEvent\<close>.\<close>

record KeyboardEvent =
  ev_code :: string
  ev_key :: string

text \<open>
  \<^verbatim>\<open>onKeyDown\<close>.  The GUI controller's \<^verbatim>\<open>setValue\<close> belongs to the widget library and is
  a parameter: it receives the new value of \<^verbatim>\<open>params.running\<close> and the state.
\<close>

definition onKeyDown :: "(bool \<Rightarrow> World \<Rightarrow> World) \<Rightarrow> KeyboardEvent \<Rightarrow> World \<Rightarrow> World" where
  "onKeyDown setValue e s =
     (let s1 = (if ev_code e = ''Space''
                then (let s' = s\<lparr>params := (params s)\<lparr>running := \<not> running (params s)\<rparr>\<rparr>
                      in setValue (running (params s')) s')
                else s)
      in if toLowerCase (ev_key e) = ''r'' then actions_clearTrails s1 else s1)"

section \<open>Notions used to state the properties\<close>

text \<open>A traced point is linked when \<^verbatim>\<open>prev\<close> and \<^verbatim>\<open>now\<close> are both absent or both present.\<close>

definition linked :: "TracedPoint \<Rightarrow> bool" where
  "linked p = ((prev p = None) = (now p = None))"

text \<open>The three accumulated angles and the angular velocity that drives each.\<close>

datatype Angle = Global | Top | Bottom

fun theta_of :: "Angle \<Rightarrow> State \<Rightarrow> number" where
  "theta_of Global st = thetaGlobal st"
| "theta_of Top st = thetaTop st"
| "theta_of Bottom st = thetaBottom st"

fun omega_of :: "Angle \<Rightarrow> Motion \<Rightarrow> number" where
  "omega_of Global m = omegaGlobal m"
| "omega_of Top m = omegaTop m"
| "omega_of Bottom m = omegaBottom m"

text \<open>\<open>in_range lo hi v\<close>: the value lies in the closed interval, by the program's \<^verbatim>\<open><=\<close>.\<close>

definition in_range :: "number \<Rightarrow> number \<Rightarrow> number \<Rightarrow> bool" where
  "in_range lo hi v = (js_le lo v \<and> js_le v hi)"

text \<open>The two halves of the reset actions, before the repaint that follows when paused.\<close>

definition zeroAngles :: "World \<Rightarrow> World" where
  "zeroAngles s = s\<lparr>params := (params s)\<lparr>state := (state (params s))
                 \<lparr>thetaGlobal := Fin 0, thetaTop := Fin 0, thetaBottom := Fin 0\<rparr>\<rparr>\<rparr>"

definition blankTimer :: "World \<Rightarrow> World" where
  "blankTimer s =
     (clearTrails s)\<lparr>params := (params s)\<lparr>state := (state (params s))\<lparr>timerMs := Fin 0\<rparr>\<rparr>\<rparr>"

text \<open>Signs of a number that may be \<^verbatim>\<open>NaN\<close>.\<close>

definition nonneg_or_nan :: "number \<Rightarrow> bool" where
  "nonneg_or_nan v = (v = NaN \<or> js_le (Fin 0) v)"

definition positive_or_nan :: "number \<Rightarrow> bool" where
  "positive_or_nan v = (v = NaN \<or> js_lt (Fin 0) v)"

text \<open>
  The segment a traced point offers to \<^verbatim>\<open>drawTrailSegment\<close>: from \<^verbatim>\<open>prev\<close> to \<^verbatim>\<open>now\<close>
  when both are present, nothing otherwise.
\<close>

definition segment_of :: "TracedPoint \<Rightarrow> Paint list" where
  "segment_of p =
     (case (prev p, now p) of (Some a, Some b) \<Rightarrow> [Segment (pid p) a b] | _ \<Rightarrow> [])"

text \<open>The vector with both components negated.\<close>

definition neg_vec :: "Vec2 \<Rightarrow> Vec2" where
  "neg_vec v = \<lparr>vec_x = js_neg (vec_x v), vec_y = js_neg (vec_y v)\<rparr>"

text \<open>Finite numbers.\<close>

definition is_fin :: "number \<Rightarrow> bool" where
  "is_fin v = (case v of Fin a \<Rightarrow> True | _ \<Rightarrow> False)"

text \<open>
  States used in the examples: the start-up state in a 1000 by 1000 viewport, the same
  with one group of parameters replaced (as URL parameters or the GUI replace them), the
  state started with \<^verbatim>\<open>axisOffsetRatio=-0.22\<close>, and the state after starting with
  \<^verbatim>\<open>thetaGlobal=1\<close> and pausing, which repaints.
\<close>

definition world0 :: World where
  "world0 = initialWorld (Fin 1000) (Fin 1000)"

definition withMotion :: "Motion \<Rightarrow> World \<Rightarrow> World" where
  "withMotion m s = s\<lparr>params := (params s)\<lparr>motion := m\<rparr>\<rparr>"

definition withGeometry :: "Geometry \<Rightarrow> World \<Rightarrow> World" where
  "withGeometry g s = s\<lparr>params := (params s)\<lparr>geometry := g\<rparr>\<rparr>"

definition withState :: "State \<Rightarrow> World \<Rightarrow> World" where
  "withState st s = s\<lparr>params := (params s)\<lparr>state := st\<rparr>\<rparr>"

definition withRunning :: "bool \<Rightarrow> World \<Rightarrow> World" where
  "withRunning b s = s\<lparr>params := (params s)\<lparr>running := b\<rparr>\<rparr>"

definition negativeOffsetWorld :: World where
  "negativeOffsetWorld =
     withGeometry ((geometry defaultParams)\<lparr>axisOffsetRatio := Fin (- (22 / 100))\<rparr>) world0"

definition pausedAtOne :: World where
  "pausedAtOne =
     renderPausedState
       (withRunning False (withState ((state defaultParams)\<lparr>thetaGlobal := Fin 1\<rparr>) world0))"

section \<open>Basic facts\<close>

lemma Math_min_Fin: "Math_min (Fin a) (Fin b) = Fin (min a b)"
  by (simp add: Math_min_def min_def)

lemma Math_max_Fin: "Math_max (Fin a) (Fin b) = Fin (max a b)"
  by (simp add: Math_max_def max_def)

lemma clamp_Fin: "clamp (Fin d) (Fin 0) (Fin c) = Fin (min (max d 0) c)"
  by (simp add: clamp_def Math_min_Fin Math_max_Fin)

lemma is_fin_iff: "is_fin v = (\<exists>a. v = Fin a)"
  by (cases v) (simp_all add: is_fin_def)

lemma fold_draw_params: "params (fold drawTrailSegment ps s) = params s"
  by (induction ps arbitrary: s) (auto simp: drawTrailSegment_def split: option.splits)

lemma fold_draw_points: "points (fold drawTrailSegment ps s) = points s"
  by (induction ps arbitrary: s) (auto simp: drawTrailSegment_def split: option.splits)

lemma params_step: "params (step dt s) = params (integrate dt s)"
  by (simp add: step_def Let_def drawOverlay_def fold_draw_params fadeTrails_def)

lemma points_step:
  "points (step dt s) =
     map (updatePoint (js_mul (maxSegmentRatio (trails (params s))) (Math_min (win_w s) (win_h s)))
            (nextPositions (getGeometry (integrate dt s)))) (points s)"
  by (simp add: step_def Let_def drawOverlay_def fold_draw_points fadeTrails_def integrate_def)

lemma points_clearTrails:
  "points (clearTrails s) = map (\<lambda>p. p\<lparr>prev := None, now := None\<rparr>) (points s)"
  by (simp add: clearTrails_def)

lemma points_sync:
  "points (syncPointsToGeometry geom s) =
     map (\<lambda>p. p\<lparr>now := Some (nextPositions geom (pid p)),
                 prev := Some (nextPositions geom (pid p))\<rparr>) (points s)"
  by (simp add: syncPointsToGeometry_def Let_def)

section \<open>Properties of the continuity tracker\<close>

lemma dist_far:
  "js_gt (dist_vec \<lparr>vec_x = Fin 0, vec_y = Fin 0\<rparr> \<lparr>vec_x = Fin 1000, vec_y = Fin 1000\<rparr>) (Fin 5)"
proof -
  have "5\<^sup>2 < (2000000::real)" by simp
  then have "5 < sqrt 2000000" by (rule real_less_rsqrt)
  then show ?thesis by (simp add: dist_vec_def js_sub_def js_gt_def)
qed

lemma dist_near:
  "\<not> js_gt (dist_vec \<lparr>vec_x = Fin 0, vec_y = Fin 0\<rparr> \<lparr>vec_x = Fin 1, vec_y = Fin 1\<rparr>) (Fin 5)"
proof -
  have "(2::real) \<le> 5\<^sup>2" by simp
  then have "sqrt 2 \<le> 5" by (intro real_le_lsqrt) simp_all
  then show ?thesis by (simp add: dist_vec_def js_sub_def js_gt_def not_less)
qed

lemma dist_345:
  "dist_vec \<lparr>vec_x = Fin 10, vec_y = Fin 20\<rparr> \<lparr>vec_x = Fin 13, vec_y = Fin 24\<rparr> = Fin 5"
proof -
  have "sqrt ((5::real) * 5) = \<bar>5\<bar>"
    by (rule real_sqrt_abs2)
  then have "sqrt (25::real) = 5"
    by simp
  then show ?thesis
    by (simp add: dist_vec_def js_sub_def)
qed

text \<open>
  Claim C3.  For a traced point whose \<^verbatim>\<open>now\<close> is present, the loop body of \<^verbatim>\<open>step\<close>
  takes the distance from \<^verbatim>\<open>now\<close> to the new position \<open>P\<close>, which is \<^verbatim>\<open>Math.hypot\<close> of
  the two coordinate differences (the Euclidean distance as the program computes it),
  and compares it with the threshold: if the distance is greater, both \<^verbatim>\<open>prev\<close> and
  \<^verbatim>\<open>now\<close> become \<open>P\<close> and the segment the point offers for drawing runs from \<open>P\<close> to
  \<open>P\<close>; if it is not, \<^verbatim>\<open>prev\<close> becomes the old \<^verbatim>\<open>now\<close>, \<^verbatim>\<open>now\<close> becomes \<open>P\<close>, and the one
  segment offered runs from the old \<^verbatim>\<open>now\<close> to \<open>P\<close>.  In \<^verbatim>\<open>step\<close> every point is updated
  this way with the threshold \<^verbatim>\<open>maxSegmentRatio * min(w, h)\<close> and the position the
  geometry solver gives it after the angles have advanced.
\<close>

theorem jump_suppression:
  assumes "now p = Some cur" and "nextPos (pid p) = P"
  shows "dist_vec cur P =
           Math_hypot (js_sub (vec_x cur) (vec_x P)) (js_sub (vec_y cur) (vec_y P))
       \<and> updatePoint thr nextPos p =
           (if js_gt (Math_hypot (js_sub (vec_x cur) (vec_x P)) (js_sub (vec_y cur) (vec_y P))) thr
            then p\<lparr>now := Some P, prev := Some P\<rparr>
            else p\<lparr>prev := Some cur, now := Some P\<rparr>)
       \<and> (js_gt (dist_vec cur P) thr \<longrightarrow>
            updatePoint thr nextPos p = p\<lparr>now := Some P, prev := Some P\<rparr>
            \<and> segment_of (updatePoint thr nextPos p) = [Segment (pid p) P P])
       \<and> (\<not> js_gt (dist_vec cur P) thr \<longrightarrow>
            updatePoint thr nextPos p = p\<lparr>prev := Some cur, now := Some P\<rparr>
            \<and> segment_of (updatePoint thr nextPos p) = [Segment (pid p) cur P])
       \<and> points (step dt s) =
            map (updatePoint
                   (js_mul (maxSegmentRatio (trails (params s))) (Math_min (win_w s) (win_h s)))
                   (nextPositions (getGeometry (integrate dt s)))) (points s)"
proof -
  have d: "dist_vec cur P =
           Math_hypot (js_sub (vec_x cur) (vec_x P)) (js_sub (vec_y cur) (vec_y P))"
    by (simp add: dist_vec_def)
  have u: "updatePoint thr nextPos p =
           (if js_gt (dist_vec cur P) thr
            then p\<lparr>now := Some P, prev := Some P\<rparr>
            else p\<lparr>prev := Some cur, now := Some P\<rparr>)"
    using assms by (simp add: updatePoint_def)
  have s1: "segment_of (p\<lparr>now := Some P, prev := Some P\<rparr>) = [Segment (pid p) P P]"
    by (simp add: segment_of_def)
  have s2: "segment_of (p\<lparr>prev := Some cur, now := Some P\<rparr>) = [Segment (pid p) cur P]"
    by (simp add: segment_of_def)
  have st: "points (step dt s) =
            map (updatePoint
                   (js_mul (maxSegmentRatio (trails (params s))) (Math_min (win_w s) (win_h s)))
                   (nextPositions (getGeometry (integrate dt s)))) (points s)"
    by (rule points_step)
  show ?thesis
    using u s1 s2 st unfolding d [symmetric] by simp
qed

text \<open>
  The two examples of the claim: from \<^verbatim>\<open>now = (0,0)\<close> with threshold 5, the position
  \<^verbatim>\<open>(1000,1000)\<close> is a jump and \<^verbatim>\<open>(1,1)\<close> is continuous motion.  Away from the origin:
  from \<^verbatim>\<open>now = (10,20)\<close> the position \<^verbatim>\<open>(13,24)\<close> is at distance 5, which is a jump for
  the threshold 4 and continuous motion for the threshold 5.
\<close>

theorem jump_suppression_examples:
  "now \<lparr>pid = TopR, prev = Some \<lparr>vec_x = Fin 0, vec_y = Fin 0\<rparr>,
         now = Some \<lparr>vec_x = Fin 0, vec_y = Fin 0\<rparr>\<rparr> = Some \<lparr>vec_x = Fin 0, vec_y = Fin 0\<rparr>
   \<and> js_gt (dist_vec \<lparr>vec_x = Fin 0, vec_y = Fin 0\<rparr> \<lparr>vec_x = Fin 1000, vec_y = Fin 1000\<rparr>) (Fin 5)
   \<and> updatePoint (Fin 5) (\<lambda>i. \<lparr>vec_x = Fin 1000, vec_y = Fin 1000\<rparr>)
         \<lparr>pid = TopR, prev = Some \<lparr>vec_x = Fin 0, vec_y = Fin 0\<rparr>,
          now = Some \<lparr>vec_x = Fin 0, vec_y = Fin 0\<rparr>\<rparr>
       = \<lparr>pid = TopR, prev = Some \<lparr>vec_x = Fin 1000, vec_y = Fin 1000\<rparr>,
          now = Some \<lparr>vec_x = Fin 1000, vec_y = Fin 1000\<rparr>\<rparr>
   \<and> \<not> js_gt (dist_vec \<lparr>vec_x = Fin 0, vec_y = Fin 0\<rparr> \<lparr>vec_x = Fin 1, vec_y = Fin 1\<rparr>) (Fin 5)
   \<and> updatePoint (Fin 5) (\<lambda>i. \<lparr>vec_x = Fin 1, vec_y = Fin 1\<rparr>)
         \<lparr>pid = TopR, prev = Some \<lparr>vec_x = Fin 0, vec_y = Fin 0\<rparr>,
          now = Some \<lparr>vec_x = Fin 0, vec_y = Fin 0\<rparr>\<rparr>
       = \<lparr>pid = TopR, prev = Some \<lparr>vec_x = Fin 0, vec_y = Fin 0\<rparr>,
          now = Some \<lparr>vec_x = Fin 1, vec_y = Fin 1\<rparr>\<rparr>
   \<and> dist_vec \<lparr>vec_x = Fin 10, vec_y = Fin 20\<rparr> \<lparr>vec_x = Fin 13, vec_y = Fin 24\<rparr> = Fin 5
   \<and> updatePoint (Fin 4) (\<lambda>i. \<lparr>vec_x = Fin 13, vec_y = Fin 24\<rparr>)
         \<lparr>pid = BotL, prev = Some \<lparr>vec_x = Fin 9, vec_y = Fin 19\<rparr>,
          now = Some \<lparr>vec_x = Fin 10, vec_y = Fin 20\<rparr>\<rparr>
       = \<lparr>pid = BotL, prev = Some \<lparr>vec_x = Fin 13, vec_y = Fin 24\<rparr>,
          now = Some \<lparr>vec_x = Fin 13, vec_y = Fin 24\<rparr>\<rparr>
   \<and> updatePoint (Fin 5) (\<lambda>i. \<lparr>vec_x = Fin 13, vec_y = Fin 24\<rparr>)
         \<lparr>pid = BotL, prev = Some \<lparr>vec_x = Fin 9, vec_y = Fin 19\<rparr>,
          now = Some \<lparr>vec_x = Fin 10, vec_y = Fin 20\<rparr>\<rparr>
       = \<lparr>pid = BotL, prev = Some \<lparr>vec_x = Fin 10, vec_y = Fin 20\<rparr>,
          now = Some \<lparr>vec_x = Fin 13, vec_y = Fin 24\<rparr>\<rparr>"
proof -
  let ?o = "\<lparr>vec_x = Fin 0, vec_y = Fin 0\<rparr>"
  let ?p = "\<lparr>pid = TopR, prev = Some ?o, now = Some ?o\<rparr>"
  let ?c = "\<lparr>vec_x = Fin 10, vec_y = Fin 20\<rparr>"
  let ?n = "\<lparr>vec_x = Fin 13, vec_y = Fin 24\<rparr>"
  let ?q = "\<lparr>pid = BotL, prev = Some \<lparr>vec_x = Fin 9, vec_y = Fin 19\<rparr>, now = Some ?c\<rparr>"
  have a: "updatePoint (Fin 5) (\<lambda>i. \<lparr>vec_x = Fin 1000, vec_y = Fin 1000\<rparr>) ?p
      = \<lparr>pid = TopR, prev = Some \<lparr>vec_x = Fin 1000, vec_y = Fin 1000\<rparr>,
          now = Some \<lparr>vec_x = Fin 1000, vec_y = Fin 1000\<rparr>\<rparr>"
    using jump_suppression [of ?p ?o "\<lambda>i. \<lparr>vec_x = Fin 1000, vec_y = Fin 1000\<rparr>"
        "\<lparr>vec_x = Fin 1000, vec_y = Fin 1000\<rparr>" "Fin 5" "Fin 0" world0] dist_far
    by simp
  have b: "updatePoint (Fin 5) (\<lambda>i. \<lparr>vec_x = Fin 1, vec_y = Fin 1\<rparr>) ?p
      = \<lparr>pid = TopR, prev = Some ?o, now = Some \<lparr>vec_x = Fin 1, vec_y = Fin 1\<rparr>\<rparr>"
    using jump_suppression [of ?p ?o "\<lambda>i. \<lparr>vec_x = Fin 1, vec_y = Fin 1\<rparr>"
        "\<lparr>vec_x = Fin 1, vec_y = Fin 1\<rparr>" "Fin 5" "Fin 0" world0] dist_near
    by simp
  have g4: "js_gt (dist_vec ?c ?n) (Fin 4)"
    by (simp add: dist_345 js_gt_def)
  have g5: "\<not> js_gt (dist_vec ?c ?n) (Fin 5)"
    by (simp add: dist_345 js_gt_def)
  have t4: "js_gt (dist_vec ?c ?n) (Fin 4) \<longrightarrow>
      updatePoint (Fin 4) (\<lambda>i. ?n) ?q = ?q\<lparr>now := Some ?n, prev := Some ?n\<rparr>"
    using jump_suppression [of ?q ?c "\<lambda>i. ?n" ?n "Fin 4" "Fin 0" world0] by simp
  have t5: "\<not> js_gt (dist_vec ?c ?n) (Fin 5) \<longrightarrow>
      updatePoint (Fin 5) (\<lambda>i. ?n) ?q = ?q\<lparr>prev := Some ?c, now := Some ?n\<rparr>"
    using jump_suppression [of ?q ?c "\<lambda>i. ?n" ?n "Fin 5" "Fin 0" world0] by simp
  have c: "updatePoint (Fin 4) (\<lambda>i. ?n) ?q = \<lparr>pid = BotL, prev = Some ?n, now = Some ?n\<rparr>"
    using t4 g4 by simp
  have d: "updatePoint (Fin 5) (\<lambda>i. ?n) ?q = \<lparr>pid = BotL, prev = Some ?c, now = Some ?n\<rparr>"
    using t5 g5 by simp
  show ?thesis
    using a b c d dist_far dist_near dist_345 by simp
qed

text \<open>
  Claim C6.  For a traced point whose \<^verbatim>\<open>now\<close> is absent, any new position \<open>P\<close> and any
  threshold, one update sets both \<^verbatim>\<open>prev\<close> and \<^verbatim>\<open>now\<close> to \<open>P\<close>, so the segment of that
  frame runs from \<open>P\<close> to \<open>P\<close>.
\<close>

theorem absent_current_initialises:
  assumes "now p = None" and "nextPos (pid p) = P"
  shows "updatePoint thr nextPos p = p\<lparr>now := Some P, prev := Some P\<rparr>
       \<and> prev (updatePoint thr nextPos p) = Some P
       \<and> now (updatePoint thr nextPos p) = Some P
       \<and> segment_of (updatePoint thr nextPos p) = [Segment (pid p) P P]"
  using assms by (simp add: updatePoint_def segment_of_def)

theorem absent_current_initialises_example:
  "now \<lparr>pid = TopL, prev = None, now = None\<rparr> = None
   \<and> prev (updatePoint (Fin 5) (\<lambda>i. \<lparr>vec_x = Fin 3, vec_y = Fin 4\<rparr>)
        \<lparr>pid = TopL, prev = None, now = None\<rparr>) = Some \<lparr>vec_x = Fin 3, vec_y = Fin 4\<rparr>
   \<and> now (updatePoint (Fin 5) (\<lambda>i. \<lparr>vec_x = Fin 3, vec_y = Fin 4\<rparr>)
        \<lparr>pid = TopL, prev = None, now = None\<rparr>) = Some \<lparr>vec_x = Fin 3, vec_y = Fin 4\<rparr>"
  using absent_current_initialises [of "\<lparr>pid = TopL, prev = None, now = None\<rparr>"
      "\<lambda>i. \<lparr>vec_x = Fin 3, vec_y = Fin 4\<rparr>" "\<lparr>vec_x = Fin 3, vec_y = Fin 4\<rparr>" "Fin 5"]
  by simp

lemma linked_updatePoint: "linked (updatePoint thr np p)"
  by (simp add: updatePoint_def linked_def Let_def split: option.splits)

lemma length_points_step: "length (points (step dt s)) = length (points s)"
  by (simp add: points_step)

text \<open>
  Claim C5.  After each operation that touches a traced point (the per-frame update of
  one point and of all points in \<^verbatim>\<open>step\<close>, \<^verbatim>\<open>clearTrails\<close>, and
  \<^verbatim>\<open>syncPointsToGeometry\<close>), \<^verbatim>\<open>prev\<close> is absent if and only if \<^verbatim>\<open>now\<close> is absent,
  whatever the point held before.
\<close>

theorem prev_absent_iff_now_absent:
  "linked (updatePoint thr nextPos p)
   \<and> (\<forall>q \<in> set (points (step dt s)). linked q)
   \<and> (\<forall>q \<in> set (points (clearTrails s)). linked q)
   \<and> (\<forall>q \<in> set (points (syncPointsToGeometry geom s)). linked q)"
proof -
  have a: "linked (updatePoint thr nextPos p)"
    by (rule linked_updatePoint)
  have b: "\<forall>q \<in> set (points (step dt s)). linked q"
    by (auto simp: points_step linked_updatePoint)
  have c: "\<forall>q \<in> set (points (clearTrails s)). linked q"
    by (auto simp: points_clearTrails linked_def)
  have d: "\<forall>q \<in> set (points (syncPointsToGeometry geom s)). linked q"
    by (auto simp: points_sync linked_def)
  show ?thesis
    using a b c d by blast
qed

theorem prev_absent_iff_now_absent_example:
  "hd (points (step (Fin 1) (initialWorld (Fin 1000) (Fin 1000))))
     \<in> set (points (step (Fin 1) (initialWorld (Fin 1000) (Fin 1000))))
   \<and> linked (hd (points (step (Fin 1) (initialWorld (Fin 1000) (Fin 1000)))))
   \<and> hd (points (clearTrails (initialWorld (Fin 1000) (Fin 1000))))
     \<in> set (points (clearTrails (initialWorld (Fin 1000) (Fin 1000))))
   \<and> linked (hd (points (clearTrails (initialWorld (Fin 1000) (Fin 1000)))))
   \<and> hd (points (syncPointsToGeometry (getGeometry (initialWorld (Fin 1000) (Fin 1000)))
          (initialWorld (Fin 1000) (Fin 1000))))
     \<in> set (points (syncPointsToGeometry (getGeometry (initialWorld (Fin 1000) (Fin 1000)))
          (initialWorld (Fin 1000) (Fin 1000))))
   \<and> linked (hd (points (syncPointsToGeometry (getGeometry (initialWorld (Fin 1000) (Fin 1000)))
          (initialWorld (Fin 1000) (Fin 1000)))))"
proof -
  have a: "points (step (Fin 1) (initialWorld (Fin 1000) (Fin 1000))) \<noteq> []"
    using length_points_step [of "Fin 1" "initialWorld (Fin 1000) (Fin 1000)"]
    by (auto simp: initialWorld_def initialPoints_def)
  have b: "points (clearTrails (initialWorld (Fin 1000) (Fin 1000))) \<noteq> []"
    by (simp add: points_clearTrails initialWorld_def initialPoints_def)
  have c: "points (syncPointsToGeometry (getGeometry (initialWorld (Fin 1000) (Fin 1000)))
          (initialWorld (Fin 1000) (Fin 1000))) \<noteq> []"
    by (simp add: points_sync initialWorld_def initialPoints_def)
  show ?thesis
    using a b c prev_absent_iff_now_absent [of "Fin 5" "\<lambda>i. \<lparr>vec_x = Fin 0, vec_y = Fin 0\<rparr>"
        "\<lparr>pid = TopL, prev = None, now = None\<rparr>" "Fin 1" "initialWorld (Fin 1000) (Fin 1000)"
        "getGeometry (initialWorld (Fin 1000) (Fin 1000))"]
    by simp
qed

section \<open>Properties of the clock and integrator\<close>

lemma clamp_in_range:
  assumes "dt \<noteq> NaN" and "js_le (Fin 0) c"
  shows "in_range (Fin 0) c (clamp dt (Fin 0) c)"
  using assms
  by (cases dt; cases c) (auto simp: in_range_def clamp_def Math_min_def Math_max_def js_le_def)

lemma clamp_idem:
  assumes "js_le (Fin 0) c"
  shows "clamp (clamp dt (Fin 0) c) (Fin 0) c = clamp dt (Fin 0) c"
  using assms by (cases dt; cases c) (auto simp: clamp_def Math_min_def Math_max_def js_le_def)

lemma clamp_NaN: "clamp NaN lo hi = NaN"
  by (simp add: clamp_def Math_min_def Math_max_def)

lemma state_step:
  "state (params (step dt s)) =
     (let m = motion (params s); dts = effectiveStep dt m; st = state (params s)
      in st\<lparr>thetaGlobal := js_add (thetaGlobal st) (js_mul (omegaGlobal m) dts),
            thetaTop := js_add (thetaTop st) (js_mul (omegaTop m) dts),
            thetaBottom := js_add (thetaBottom st) (js_mul (omegaBottom m) dts),
            timerMs := js_add (timerMs st) (js_mul dts (Fin 1000))\<rparr>)"
  by (simp add: params_step integrate_def Let_def)

lemma motion_step: "motion (params (step dt s)) = motion (params s)"
  by (simp add: params_step integrate_def Let_def)

lemma theta_step:
  "theta_of a (state (params (step dt s))) =
     js_add (theta_of a (state (params s)))
       (js_mul (omega_of a (motion (params s))) (effectiveStep dt (motion (params s))))"
  by (cases a) (simp_all add: state_step Let_def)

lemma motion_steps: "motion (params ((step dt ^^ n) s)) = motion (params s)"
  by (induction n) (simp_all add: motion_step)

lemma theta_steps:
  assumes "effectiveStep dt (motion (params s)) = Fin e"
    and "omega_of a (motion (params s)) = Fin om"
    and "theta_of a (state (params s)) = Fin th"
  shows "theta_of a (state (params ((step dt ^^ n) s))) = Fin (th + real n * (om * e))"
proof (induction n)
  case 0
  show ?case using assms(3) by simp
next
  case (Suc n)
  have "theta_of a (state (params ((step dt ^^ Suc n) s))) =
      js_add (theta_of a (state (params ((step dt ^^ n) s)))) (js_mul (Fin om) (Fin e))"
    using assms(1,2) by (simp add: theta_step motion_steps)
  then show ?case
    by (simp add: Suc.IH algebra_simps)
qed

lemma world0_params: "params world0 = defaultParams"
  by (simp add: world0_def initialWorld_def)

lemma withMotion_simps:
  "motion (params (withMotion m s)) = m"
  "state (params (withMotion m s)) = state (params s)"
  by (simp_all add: withMotion_def)

text \<open>
  Claim C1, as amended.  For every raw frame delta other than \<^verbatim>\<open>NaN\<close> (negative, zero,
  positive or infinite) and every clamp ceiling that is at least zero, the clamped delta
  lies between zero and the ceiling, the effective step is the clamped delta times
  \<^verbatim>\<open>timeScale\<close>, each angle grows by its angular velocity times the effective step, and
  the state after the step is the one the clamped delta itself would give: nothing of
  the raw delta beyond its clamped value reaches the angles.
\<close>

theorem clamped_step:
  assumes "dt \<noteq> NaN" and "js_le (Fin 0) (dtClampMax (motion (params s)))"
  shows "in_range (Fin 0) (dtClampMax (motion (params s)))
           (clamp dt (Fin 0) (dtClampMax (motion (params s))))
       \<and> effectiveStep dt (motion (params s)) =
           js_mul (clamp dt (Fin 0) (dtClampMax (motion (params s)))) (timeScale (motion (params s)))
       \<and> theta_of a (state (params (step dt s))) =
           js_add (theta_of a (state (params s)))
             (js_mul (omega_of a (motion (params s))) (effectiveStep dt (motion (params s))))
       \<and> state (params (step dt s)) =
           state (params (step (clamp dt (Fin 0) (dtClampMax (motion (params s)))) s))"
proof -
  have 1: "in_range (Fin 0) (dtClampMax (motion (params s)))
           (clamp dt (Fin 0) (dtClampMax (motion (params s))))"
    using assms by (rule clamp_in_range)
  have 2: "theta_of a (state (params (step dt s))) =
           js_add (theta_of a (state (params s)))
             (js_mul (omega_of a (motion (params s))) (effectiveStep dt (motion (params s))))"
    by (rule theta_step)
  have 3: "effectiveStep (clamp dt (Fin 0) (dtClampMax (motion (params s)))) (motion (params s))
           = effectiveStep dt (motion (params s))"
    using assms(2) by (simp add: effectiveStep_def clamp_idem)
  have 4: "state (params (step dt s)) =
           state (params (step (clamp dt (Fin 0) (dtClampMax (motion (params s)))) s))"
    by (simp add: state_step 3)
  show ?thesis using 1 2 4 by (simp add: effectiveStep_def)
qed

text \<open>
  An infinite delta in the start-up state: it is clamped to the ceiling 0.05, and
  \<^verbatim>\<open>thetaTop\<close> advances by \<^verbatim>\<open>2 * 0.05\<close>.
\<close>

theorem clamped_step_example:
  "PosInf \<noteq> NaN
   \<and> js_le (Fin 0) (dtClampMax (motion (params world0)))
   \<and> clamp PosInf (Fin 0) (dtClampMax (motion (params world0))) = Fin (5 / 100)
   \<and> in_range (Fin 0) (Fin (5 / 100)) (Fin (5 / 100))
   \<and> thetaTop (state (params (step PosInf world0))) = Fin (1 / 10)"
proof -
  have h1: "PosInf \<noteq> NaN"
    by simp
  have h2: "js_le (Fin 0) (dtClampMax (motion (params world0)))"
    by (simp add: world0_params defaultParams_def js_le_def)
  have c: "clamp PosInf (Fin 0) (dtClampMax (motion (params world0))) = Fin (5 / 100)"
    by (simp add: world0_params defaultParams_def clamp_def Math_max_def Math_min_def)
  note t = clamped_step [OF h1 h2, of Top]
  from t have r: "in_range (Fin 0) (Fin (5 / 100)) (Fin (5 / 100))"
    unfolding c by (simp add: world0_params defaultParams_def)
  from t have "theta_of Top (state (params (step PosInf world0))) =
           js_add (theta_of Top (state (params world0)))
             (js_mul (omega_of Top (motion (params world0)))
                (effectiveStep PosInf (motion (params world0))))"
    by blast
  then have th: "thetaTop (state (params (step PosInf world0))) = Fin (1 / 10)"
    using c by (simp add: effectiveStep_def world0_params defaultParams_def)
  show ?thesis
    using h1 h2 c r th by blast
qed

text \<open>
  The claim as stated fails for a \<^verbatim>\<open>NaN\<close> delta, which \<^verbatim>\<open>Math.max\<close> and \<^verbatim>\<open>Math.min\<close>
  hand through: the clamped value is not in the interval and all three angles become
  \<^verbatim>\<open>NaN\<close>.  It also fails for a negative ceiling, which \<^verbatim>\<open>clamp\<close> returns.
\<close>

theorem clamped_step_fails_for_nan:
  "\<not> in_range (Fin 0) (dtClampMax (motion (params world0)))
        (clamp NaN (Fin 0) (dtClampMax (motion (params world0))))
   \<and> thetaGlobal (state (params (step NaN world0))) = NaN
   \<and> thetaTop (state (params (step NaN world0))) = NaN
   \<and> thetaBottom (state (params (step NaN world0))) = NaN
   \<and> \<not> in_range (Fin 0) (Fin (- 1)) (clamp (Fin 1) (Fin 0) (Fin (- 1)))"
  by (simp add: clamp_NaN in_range_def js_le_def state_step effectiveStep_def
      world0_params defaultParams_def clamp_Fin)

lemma clamp_nonneg:
  assumes "dt \<noteq> NaN" and "0 \<le> c"
  shows "\<exists>x. clamp dt (Fin 0) (Fin c) = Fin x \<and> 0 \<le> x"
  using assms by (cases dt) (auto simp: clamp_def Math_max_def Math_min_def)

text \<open>
  Claim C8, as amended.  Fix a raw delta greater than zero and a finite angle with a
  finite angular velocity.  Every call of \<^verbatim>\<open>step\<close> adds the angular velocity times the
  effective step to the angle.  If the angular velocity is greater than zero and the
  time scale and the clamp ceiling are finite and not negative, the effective step is
  not negative and no successive call decreases the angle.  If the angular velocity is
  zero and the effective step is finite, the angle keeps its value through every call.
\<close>

theorem angle_accumulation:
  assumes "js_lt (Fin 0) dt"
    and "omega_of a (motion (params s)) = Fin om"
    and "theta_of a (state (params s)) = Fin th"
  shows "(\<forall>n. theta_of a (state (params ((step dt ^^ Suc n) s))) =
              js_add (theta_of a (state (params ((step dt ^^ n) s))))
                (js_mul (omega_of a (motion (params s))) (effectiveStep dt (motion (params s)))))
       \<and> (0 < om \<and> timeScale (motion (params s)) = Fin ts \<and> 0 \<le> ts
            \<and> dtClampMax (motion (params s)) = Fin c \<and> 0 \<le> c \<longrightarrow>
           js_le (Fin 0) (effectiveStep dt (motion (params s)))
           \<and> (\<forall>n. js_le (theta_of a (state (params ((step dt ^^ n) s))))
                      (theta_of a (state (params ((step dt ^^ Suc n) s))))))
       \<and> (om = 0 \<and> is_fin (effectiveStep dt (motion (params s))) \<longrightarrow>
           (\<forall>n. theta_of a (state (params ((step dt ^^ n) s))) = theta_of a (state (params s))))"
proof -
  have nn: "dt \<noteq> NaN"
    using assms(1) by (cases dt) auto
  have acc: "\<forall>n. theta_of a (state (params ((step dt ^^ Suc n) s))) =
              js_add (theta_of a (state (params ((step dt ^^ n) s))))
                (js_mul (omega_of a (motion (params s))) (effectiveStep dt (motion (params s))))"
    by (simp add: theta_step motion_steps)
  have inc: "js_le (Fin 0) (effectiveStep dt (motion (params s)))
           \<and> (\<forall>n. js_le (theta_of a (state (params ((step dt ^^ n) s))))
                      (theta_of a (state (params ((step dt ^^ Suc n) s)))))"
    if h: "0 < om" "timeScale (motion (params s)) = Fin ts" "0 \<le> ts"
      "dtClampMax (motion (params s)) = Fin c" "0 \<le> c"
  proof -
    obtain x where x: "clamp dt (Fin 0) (Fin c) = Fin x" and pos: "0 \<le> x"
      using clamp_nonneg [OF nn h(5)] by blast
    have e: "effectiveStep dt (motion (params s)) = Fin (x * ts)"
      using h(2,4) x by (simp add: effectiveStep_def)
    note ts = theta_steps [OF e assms(2) assms(3)]
    have p: "0 \<le> om * (x * ts)"
      using pos h(1,3) by simp
    have "\<forall>n. js_le (theta_of a (state (params ((step dt ^^ n) s))))
                      (theta_of a (state (params ((step dt ^^ Suc n) s))))"
    proof
      fix n
      have "th + real n * (om * (x * ts)) \<le> th + real (Suc n) * (om * (x * ts))"
        using p by (simp add: algebra_simps)
      then show "js_le (theta_of a (state (params ((step dt ^^ n) s))))
                      (theta_of a (state (params ((step dt ^^ Suc n) s))))"
        unfolding ts by (simp add: js_le_def not_less)
    qed
    moreover have "js_le (Fin 0) (effectiveStep dt (motion (params s)))"
      using pos h(3) by (simp add: e js_le_def not_less)
    ultimately show ?thesis
      by blast
  qed
  have same: "\<forall>n. theta_of a (state (params ((step dt ^^ n) s))) = theta_of a (state (params s))"
    if h: "om = 0" "is_fin (effectiveStep dt (motion (params s)))"
  proof -
    obtain e where e: "effectiveStep dt (motion (params s)) = Fin e"
      using h(2) by (auto simp: is_fin_iff)
    show ?thesis
      using h(1) assms(3) by (simp add: theta_steps [OF e assms(2) assms(3)])
  qed
  show ?thesis
    using acc inc same by blast
qed

text \<open>
  In the start-up state (\<^verbatim>\<open>omegaGlobal = 0.45\<close>, \<^verbatim>\<open>timeScale = 1\<close>, ceiling 0.05) a
  16 ms frame does not decrease \<^verbatim>\<open>thetaGlobal\<close> on the first and on the second call;
  with \<^verbatim>\<open>omegaTop = 0\<close> two calls leave \<^verbatim>\<open>thetaTop\<close> at its value.
\<close>

theorem angle_accumulation_example:
  "js_lt (Fin 0) (Fin (16 / 1000))
   \<and> js_le (Fin 0) (effectiveStep (Fin (16 / 1000)) (motion (params world0)))
   \<and> js_le (theta_of Global (state (params world0)))
           (theta_of Global (state (params (step (Fin (16 / 1000)) world0))))
   \<and> js_le (theta_of Global (state (params (step (Fin (16 / 1000)) world0))))
           (theta_of Global (state (params (step (Fin (16 / 1000)) (step (Fin (16 / 1000)) world0)))))
   \<and> is_fin (effectiveStep (Fin (16 / 1000))
         (motion (params (withMotion ((motion defaultParams)\<lparr>omegaTop := Fin 0\<rparr>) world0))))
   \<and> theta_of Top (state (params (step (Fin (16 / 1000)) (step (Fin (16 / 1000))
         (withMotion ((motion defaultParams)\<lparr>omegaTop := Fin 0\<rparr>) world0)))))
       = Fin 0"
proof -
  let ?dt = "Fin (16 / 1000)"
  let ?w1 = "withMotion ((motion defaultParams)\<lparr>omegaTop := Fin 0\<rparr>) world0"
  have h: "js_lt (Fin 0) ?dt"
    by simp
  have om: "omega_of Global (motion (params world0)) = Fin (45 / 100)"
    by (simp add: world0_params defaultParams_def)
  have th: "theta_of Global (state (params world0)) = Fin 0"
    by (simp add: world0_params defaultParams_def)
  have pre: "0 < (45 / 100 :: real) \<and> timeScale (motion (params world0)) = Fin 1 \<and> 0 \<le> (1::real)
      \<and> dtClampMax (motion (params world0)) = Fin (5 / 100) \<and> 0 \<le> (5 / 100 :: real)"
    by (simp add: world0_params defaultParams_def)
  have g: "js_le (Fin 0) (effectiveStep ?dt (motion (params world0)))
           \<and> (\<forall>n. js_le (theta_of Global (state (params ((step ?dt ^^ n) world0))))
                      (theta_of Global (state (params ((step ?dt ^^ Suc n) world0)))))"
    using angle_accumulation [OF h om th, of 1 "5 / 100"] pre by blast
  then have g': "\<forall>n. js_le (theta_of Global (state (params ((step ?dt ^^ n) world0))))
                      (theta_of Global (state (params ((step ?dt ^^ Suc n) world0))))"
    by simp
  have g0: "js_le (theta_of Global (state (params world0)))
           (theta_of Global (state (params (step ?dt world0))))"
    using g' [rule_format, of 0] by simp
  have g1: "js_le (theta_of Global (state (params (step ?dt world0))))
           (theta_of Global (state (params (step ?dt (step ?dt world0)))))"
    using g' [rule_format, of 1] by simp
  have f: "is_fin (effectiveStep ?dt (motion (params ?w1)))"
    by (simp add: withMotion_simps defaultParams_def effectiveStep_def clamp_Fin is_fin_def)
  have om1: "omega_of Top (motion (params ?w1)) = Fin 0"
    by (simp add: withMotion_simps)
  have th1: "theta_of Top (state (params ?w1)) = Fin 0"
    by (simp add: withMotion_simps world0_params defaultParams_def)
  have z: "\<forall>n. theta_of Top (state (params ((step ?dt ^^ n) ?w1))) = theta_of Top (state (params ?w1))"
    using angle_accumulation [OF h om1 th1] f by blast
  have z2: "theta_of Top (state (params (step ?dt (step ?dt ?w1)))) = Fin 0"
    using z [rule_format, of 2]
    by (simp add: numeral_2_eq_2 withMotion_simps world0_params defaultParams_def)
  show ?thesis
    using h g g0 g1 f z2 by blast
qed

text \<open>
  The claim as stated fails: with \<^verbatim>\<open>omegaGlobal = 0.45\<close> and a 16 ms frame,
  \<^verbatim>\<open>timeScale = 0\<close> or a ceiling of zero leaves \<^verbatim>\<open>thetaGlobal\<close> where it was, so the angle
  is not strictly increased; and with \<^verbatim>\<open>omegaTop = 0\<close> an infinite time scale turns
  \<^verbatim>\<open>thetaTop\<close> into \<^verbatim>\<open>NaN\<close>.
\<close>

theorem angle_accumulation_needs_positive_scale:
  "omegaGlobal (motion (params (withMotion ((motion defaultParams)\<lparr>timeScale := Fin 0\<rparr>) world0)))
     = Fin (45 / 100)
   \<and> \<not> js_lt
      (thetaGlobal (state (params (withMotion ((motion defaultParams)\<lparr>timeScale := Fin 0\<rparr>) world0))))
      (thetaGlobal (state (params (step (Fin (16 / 1000))
         (withMotion ((motion defaultParams)\<lparr>timeScale := Fin 0\<rparr>) world0)))))
   \<and> \<not> js_lt
      (thetaGlobal (state (params (withMotion ((motion defaultParams)\<lparr>dtClampMax := Fin 0\<rparr>) world0))))
      (thetaGlobal (state (params (step (Fin (16 / 1000))
         (withMotion ((motion defaultParams)\<lparr>dtClampMax := Fin 0\<rparr>) world0)))))
   \<and> thetaTop (state (params (step (Fin (16 / 1000))
         (withMotion ((motion defaultParams)\<lparr>omegaTop := Fin 0, timeScale := PosInf\<rparr>) world0))))
      \<noteq> thetaTop (state (params
         (withMotion ((motion defaultParams)\<lparr>omegaTop := Fin 0, timeScale := PosInf\<rparr>) world0)))"
  by (simp add: state_step Let_def withMotion_simps world0_params defaultParams_def
      effectiveStep_def clamp_Fin signed_inf_def)

section \<open>Properties of the geometry solver\<close>

lemma rotate_Fin:
  "rotate_vec \<lparr>vec_x = Fin a, vec_y = Fin b\<rparr> (Fin t) =
     \<lparr>vec_x = Fin (a * cos t - b * sin t), vec_y = Fin (a * sin t + b * cos t)\<rparr>"
  by (simp add: rotate_vec_def js_sub_def)

lemma add_Fin:
  "add \<lparr>vec_x = Fin a, vec_y = Fin b\<rparr> \<lparr>vec_x = Fin c, vec_y = Fin d\<rparr> =
     \<lparr>vec_x = Fin (a + c), vec_y = Fin (b + d)\<rparr>"
  by (simp add: add_def)

lemma dist_Fin:
  "dist_vec \<lparr>vec_x = Fin a, vec_y = Fin b\<rparr> \<lparr>vec_x = Fin c, vec_y = Fin d\<rparr> =
     Fin (sqrt ((a - c) * (a - c) + (b - d) * (b - d)))"
  by (simp add: dist_vec_def js_sub_def)

lemma degToRad_zero: "degToRad (Fin 0) = Fin 0"
  by (simp add: degToRad_def Math_PI_def)

lemma sqrt_sq_sum: "sqrt ((a * sin t) * (a * sin t) + (a * cos t) * (a * cos t)) = \<bar>a\<bar>"
proof -
  have one: "sin t * sin t + cos t * cos t = 1"
    using sin_cos_squared_add [of t] by (simp add: power2_eq_square)
  have "(a * sin t) * (a * sin t) + (a * cos t) * (a * cos t)
      = (a * a) * (sin t * sin t + cos t * cos t)"
    by (simp only: algebra_simps)
  also have "\<dots> = a * a"
    by (simp only: one mult_1_right)
  finally show ?thesis
    by (simp only: real_sqrt_abs2)
qed

lemma getGeometry_cong:
  assumes "params s' = params s" and "win_w s' = win_w s" and "win_h s' = win_h s"
  shows "getGeometry s' = getGeometry s"
  using assms by (simp add: getGeometry_def)

lemma axes_Fin:
  assumes "thetaGlobal (state (params s)) = Fin t"
    and "win_w s = Fin vw" and "win_h s = Fin vh"
    and "axisOffsetRatio (geometry (params s)) = Fin r"
  shows "center (getGeometry s) = \<lparr>vec_x = Fin (vw / 2), vec_y = Fin (vh / 2)\<rparr>"
    and "topAxis (getGeometry s) =
      \<lparr>vec_x = Fin (vw / 2 + r * min vw vh * sin t), vec_y = Fin (vh / 2 - r * min vw vh * cos t)\<rparr>"
    and "bottomAxis (getGeometry s) =
      \<lparr>vec_x = Fin (vw / 2 - r * min vw vh * sin t), vec_y = Fin (vh / 2 + r * min vw vh * cos t)\<rparr>"
  using assms by (simp_all add: getGeometry_def Let_def Math_min_Fin rotate_Fin add_Fin)

lemma axis_distance:
  assumes "thetaGlobal (state (params s)) = Fin t"
    and "win_w s = Fin vw" and "win_h s = Fin vh"
    and "axisOffsetRatio (geometry (params s)) = Fin r"
  shows "dist_vec (center (getGeometry s)) (topAxis (getGeometry s)) = Fin \<bar>r * min vw vh\<bar>"
    and "dist_vec (center (getGeometry s)) (bottomAxis (getGeometry s)) = Fin \<bar>r * min vw vh\<bar>"
  unfolding axes_Fin [OF assms] dist_Fin
  using sqrt_sq_sum [of "r * min vw vh" t] by simp_all

text \<open>
  Claim C2, as amended.  With all three angles zero, both phase offsets zero,
  \<^verbatim>\<open>axisOffsetRatio = 0.22\<close>, \<^verbatim>\<open>armLenRatio = 0.18\<close> and a 1000 by 1000 viewport, the
  solver returns center (500,500), topAxis (500,280), bottomAxis (500,720), topRight
  (680,280) and topLeft (320,280): the axes are 220 from the center.
\<close>

theorem geometry_at_rest:
  assumes "win_w s = Fin 1000" and "win_h s = Fin 1000"
    and "axisOffsetRatio (geometry (params s)) = Fin (22 / 100)"
    and "armLenRatio (geometry (params s)) = Fin (18 / 100)"
    and "topPhaseOffset (geometry (params s)) = Fin 0"
    and "bottomPhaseOffset (geometry (params s)) = Fin 0"
    and "thetaGlobal (state (params s)) = Fin 0"
    and "thetaTop (state (params s)) = Fin 0"
    and "thetaBottom (state (params s)) = Fin 0"
  shows "center (getGeometry s) = \<lparr>vec_x = Fin 500, vec_y = Fin 500\<rparr>
       \<and> topAxis (getGeometry s) = \<lparr>vec_x = Fin 500, vec_y = Fin 280\<rparr>
       \<and> bottomAxis (getGeometry s) = \<lparr>vec_x = Fin 500, vec_y = Fin 720\<rparr>
       \<and> topR (getGeometry s) = \<lparr>vec_x = Fin 680, vec_y = Fin 280\<rparr>
       \<and> topL (getGeometry s) = \<lparr>vec_x = Fin 320, vec_y = Fin 280\<rparr>"
  using assms
  by (simp add: getGeometry_def Let_def Math_min_Fin rotate_Fin add_Fin degToRad_zero)

text \<open>The start-up state in a 1000 by 1000 viewport is such a state.\<close>

theorem geometry_at_rest_example:
  "win_w world0 = Fin 1000 \<and> win_h world0 = Fin 1000
   \<and> geometry (params world0) =
       \<lparr>axisOffsetRatio = Fin (22 / 100), armLenRatio = Fin (18 / 100),
        topPhaseOffset = Fin 0, bottomPhaseOffset = Fin 0\<rparr>
   \<and> thetaGlobal (state (params world0)) = Fin 0
   \<and> thetaTop (state (params world0)) = Fin 0
   \<and> thetaBottom (state (params world0)) = Fin 0
   \<and> center (getGeometry world0) = \<lparr>vec_x = Fin 500, vec_y = Fin 500\<rparr>
   \<and> topAxis (getGeometry world0) = \<lparr>vec_x = Fin 500, vec_y = Fin 280\<rparr>
   \<and> bottomAxis (getGeometry world0) = \<lparr>vec_x = Fin 500, vec_y = Fin 720\<rparr>
   \<and> topR (getGeometry world0) = \<lparr>vec_x = Fin 680, vec_y = Fin 280\<rparr>
   \<and> topL (getGeometry world0) = \<lparr>vec_x = Fin 320, vec_y = Fin 280\<rparr>"
proof -
  have w: "win_w world0 = Fin 1000" "win_h world0 = Fin 1000"
    by (simp_all add: world0_def initialWorld_def)
  have g: "geometry (params world0) =
       \<lparr>axisOffsetRatio = Fin (22 / 100), armLenRatio = Fin (18 / 100),
        topPhaseOffset = Fin 0, bottomPhaseOffset = Fin 0\<rparr>"
    by (simp add: world0_params defaultParams_def)
  have t: "thetaGlobal (state (params world0)) = Fin 0" "thetaTop (state (params world0)) = Fin 0"
    "thetaBottom (state (params world0)) = Fin 0"
    by (simp_all add: world0_params defaultParams_def)
  have "center (getGeometry world0) = \<lparr>vec_x = Fin 500, vec_y = Fin 500\<rparr>
       \<and> topAxis (getGeometry world0) = \<lparr>vec_x = Fin 500, vec_y = Fin 280\<rparr>
       \<and> bottomAxis (getGeometry world0) = \<lparr>vec_x = Fin 500, vec_y = Fin 720\<rparr>
       \<and> topR (getGeometry world0) = \<lparr>vec_x = Fin 680, vec_y = Fin 280\<rparr>
       \<and> topL (getGeometry world0) = \<lparr>vec_x = Fin 320, vec_y = Fin 280\<rparr>"
    by (rule geometry_at_rest [OF w]) (simp_all add: g t)
  then show ?thesis
    using w g t by blast
qed

text \<open>
  The values of the claim as stated are not the solver's: in the start-up state the
  top axis is not at (500,390), the bottom axis is not at (500,610), and the top arm
  ends are not at (680,390) and (320,390).
\<close>

theorem geometry_at_rest_not_as_stated:
  "topAxis (getGeometry world0) \<noteq> \<lparr>vec_x = Fin 500, vec_y = Fin 390\<rparr>
   \<and> bottomAxis (getGeometry world0) \<noteq> \<lparr>vec_x = Fin 500, vec_y = Fin 610\<rparr>
   \<and> topR (getGeometry world0) \<noteq> \<lparr>vec_x = Fin 680, vec_y = Fin 390\<rparr>
   \<and> topL (getGeometry world0) \<noteq> \<lparr>vec_x = Fin 320, vec_y = Fin 390\<rparr>"
  by (simp add: world0_def initialWorld_def defaultParams_def
     getGeometry_def Let_def Math_min_Fin rotate_Fin add_Fin degToRad_zero)

lemma js_mul_neg_left: "js_mul (js_neg a) b = js_neg (js_mul a b)"
  by (cases a; cases b) (simp_all add: signed_inf_def)

lemma zero_mul_trig:
  "js_mul (Fin 0) (Math_cos t) = Fin 0 \<or> js_mul (Fin 0) (Math_cos t) = NaN"
  "js_mul (Fin 0) (Math_sin t) = Fin 0 \<or> js_mul (Fin 0) (Math_sin t) = NaN"
  by (cases t; simp)+

lemma zero_sub_neg: "z = Fin 0 \<or> z = NaN \<Longrightarrow> js_sub z (js_neg b) = js_neg (js_sub z b)"
  by (cases b) (auto simp: js_sub_def)

lemma zero_add_neg: "z = Fin 0 \<or> z = NaN \<Longrightarrow> js_add z (js_neg b) = js_neg (js_add z b)"
  by (cases b) auto

lemma rotate_offset_neg:
  "rotate_vec \<lparr>vec_x = Fin 0, vec_y = js_neg a\<rparr> t
     = neg_vec (rotate_vec \<lparr>vec_x = Fin 0, vec_y = a\<rparr> t)"
proof -
  have x: "js_sub (js_mul (Fin 0) (Math_cos t)) (js_mul (js_neg a) (Math_sin t))
      = js_neg (js_sub (js_mul (Fin 0) (Math_cos t)) (js_mul a (Math_sin t)))"
    unfolding js_mul_neg_left by (rule zero_sub_neg [OF zero_mul_trig(1)])
  have y: "js_add (js_mul (Fin 0) (Math_sin t)) (js_mul (js_neg a) (Math_cos t))
      = js_neg (js_add (js_mul (Fin 0) (Math_sin t)) (js_mul a (Math_cos t)))"
    unfolding js_mul_neg_left by (rule zero_add_neg [OF zero_mul_trig(2)])
  show ?thesis
    by (simp add: rotate_vec_def neg_vec_def Let_def x y)
qed

lemma rotate_offset_Fin:
  "rotate_vec \<lparr>vec_x = Fin 0, vec_y = Fin r\<rparr> (Fin t)
     = \<lparr>vec_x = js_neg (js_mul (Fin r) (Math_sin (Fin t))),
        vec_y = js_mul (Fin r) (Math_cos (Fin t))\<rparr>"
  by (simp add: rotate_vec_def js_sub_def)

text \<open>
  Claim C7, as amended.  For every global angle, viewport size and \<^verbatim>\<open>axisOffsetRatio\<close>,
  the solver places the top axis at the center plus the offset vector
  \<^verbatim>\<open>rotate((0, -axisOffset), thetaGlobal)\<close> and the bottom axis at the center plus
  \<^verbatim>\<open>rotate((0, axisOffset), thetaGlobal)\<close>, and the first offset vector is the second with
  both components negated: the axes are placed antipodally about the center.  For a
  finite angle and a finite \<^verbatim>\<open>axisOffset\<close> the second offset vector is
  \<^verbatim>\<open>(-(axisOffset * sin), axisOffset * cos)\<close>.
\<close>

theorem axes_antipodal:
  "center (getGeometry s) = \<lparr>vec_x = js_div (win_w s) (Fin 2), vec_y = js_div (win_h s) (Fin 2)\<rparr>
   \<and> topAxis (getGeometry s) =
       add (center (getGeometry s))
         (rotate_vec
            \<lparr>vec_x = Fin 0,
             vec_y = js_neg (js_mul (axisOffsetRatio (geometry (params s)))
                                (Math_min (win_w s) (win_h s)))\<rparr>
            (thetaGlobal (state (params s))))
   \<and> bottomAxis (getGeometry s) =
       add (center (getGeometry s))
         (rotate_vec
            \<lparr>vec_x = Fin 0,
             vec_y = js_mul (axisOffsetRatio (geometry (params s))) (Math_min (win_w s) (win_h s))\<rparr>
            (thetaGlobal (state (params s))))
   \<and> rotate_vec
         \<lparr>vec_x = Fin 0,
          vec_y = js_neg (js_mul (axisOffsetRatio (geometry (params s)))
                             (Math_min (win_w s) (win_h s)))\<rparr>
         (thetaGlobal (state (params s)))
       = neg_vec
           (rotate_vec
              \<lparr>vec_x = Fin 0,
               vec_y = js_mul (axisOffsetRatio (geometry (params s))) (Math_min (win_w s) (win_h s))\<rparr>
              (thetaGlobal (state (params s))))
   \<and> (thetaGlobal (state (params s)) = Fin t
        \<and> js_mul (axisOffsetRatio (geometry (params s))) (Math_min (win_w s) (win_h s)) = Fin r \<longrightarrow>
        rotate_vec
          \<lparr>vec_x = Fin 0,
           vec_y = js_mul (axisOffsetRatio (geometry (params s))) (Math_min (win_w s) (win_h s))\<rparr>
          (thetaGlobal (state (params s)))
        = \<lparr>vec_x = js_neg (js_mul (Fin r) (Math_sin (Fin t))),
           vec_y = js_mul (Fin r) (Math_cos (Fin t))\<rparr>)"
proof -
  have c: "center (getGeometry s) =
      \<lparr>vec_x = js_div (win_w s) (Fin 2), vec_y = js_div (win_h s) (Fin 2)\<rparr>"
    by (simp add: getGeometry_def Let_def)
  have t: "topAxis (getGeometry s) =
       add (center (getGeometry s))
         (rotate_vec
            \<lparr>vec_x = Fin 0,
             vec_y = js_neg (js_mul (axisOffsetRatio (geometry (params s)))
                                (Math_min (win_w s) (win_h s)))\<rparr>
            (thetaGlobal (state (params s))))"
    by (simp add: getGeometry_def Let_def)
  have b: "bottomAxis (getGeometry s) =
       add (center (getGeometry s))
         (rotate_vec
            \<lparr>vec_x = Fin 0,
             vec_y = js_mul (axisOffsetRatio (geometry (params s))) (Math_min (win_w s) (win_h s))\<rparr>
            (thetaGlobal (state (params s))))"
    by (simp add: getGeometry_def Let_def)
  have n: "rotate_vec
         \<lparr>vec_x = Fin 0,
          vec_y = js_neg (js_mul (axisOffsetRatio (geometry (params s)))
                             (Math_min (win_w s) (win_h s)))\<rparr>
         (thetaGlobal (state (params s)))
       = neg_vec
           (rotate_vec
              \<lparr>vec_x = Fin 0,
               vec_y = js_mul (axisOffsetRatio (geometry (params s))) (Math_min (win_w s) (win_h s))\<rparr>
              (thetaGlobal (state (params s))))"
    by (rule rotate_offset_neg)
  have f: "thetaGlobal (state (params s)) = Fin t
        \<and> js_mul (axisOffsetRatio (geometry (params s))) (Math_min (win_w s) (win_h s)) = Fin r \<longrightarrow>
        rotate_vec
          \<lparr>vec_x = Fin 0,
           vec_y = js_mul (axisOffsetRatio (geometry (params s))) (Math_min (win_w s) (win_h s))\<rparr>
          (thetaGlobal (state (params s)))
        = \<lparr>vec_x = js_neg (js_mul (Fin r) (Math_sin (Fin t))),
           vec_y = js_mul (Fin r) (Math_cos (Fin t))\<rparr>"
    by (auto simp: rotate_offset_Fin)
  show ?thesis
    using c t b n f by blast
qed

lemma withGeometry_simps:
  "geometry (params (withGeometry g s)) = g"
  "state (params (withGeometry g s)) = state (params s)"
  "win_w (withGeometry g s) = win_w s"
  "win_h (withGeometry g s) = win_h s"
  by (simp_all add: withGeometry_def)

lemma world0_size: "win_w world0 = Fin 1000" "win_h world0 = Fin 1000"
  by (simp_all add: world0_def initialWorld_def)

text \<open>
  In the start-up state the angle is zero and \<^verbatim>\<open>axisOffset\<close> is 220: the offset vector
  is (0,220), the bottom axis is at (500,720) and the top axis at (500,280).
\<close>

theorem axes_antipodal_example:
  "thetaGlobal (state (params world0)) = Fin 0
   \<and> js_mul (axisOffsetRatio (geometry (params world0))) (Math_min (win_w world0) (win_h world0))
       = Fin 220
   \<and> rotate_vec
        \<lparr>vec_x = Fin 0,
         vec_y = js_mul (axisOffsetRatio (geometry (params world0)))
                   (Math_min (win_w world0) (win_h world0))\<rparr>
        (thetaGlobal (state (params world0)))
       = \<lparr>vec_x = Fin 0, vec_y = Fin 220\<rparr>
   \<and> center (getGeometry world0) = \<lparr>vec_x = Fin 500, vec_y = Fin 500\<rparr>
   \<and> bottomAxis (getGeometry world0) = \<lparr>vec_x = Fin 500, vec_y = Fin 720\<rparr>
   \<and> topAxis (getGeometry world0) = \<lparr>vec_x = Fin 500, vec_y = Fin 280\<rparr>"
proof -
  let ?a = "js_mul (axisOffsetRatio (geometry (params world0)))
              (Math_min (win_w world0) (win_h world0))"
  let ?t = "thetaGlobal (state (params world0))"
  have th: "?t = Fin 0"
    by (simp add: world0_params defaultParams_def)
  have a: "?a = Fin 220"
    by (simp add: world0_size world0_params defaultParams_def Math_min_Fin)
  note t = axes_antipodal [of world0 0 220]
  from t th a have "rotate_vec \<lparr>vec_x = Fin 0, vec_y = ?a\<rparr> ?t
      = \<lparr>vec_x = js_neg (js_mul (Fin 220) (Math_sin (Fin 0))),
         vec_y = js_mul (Fin 220) (Math_cos (Fin 0))\<rparr>"
    by blast
  then have r: "rotate_vec \<lparr>vec_x = Fin 0, vec_y = ?a\<rparr> ?t = \<lparr>vec_x = Fin 0, vec_y = Fin 220\<rparr>"
    by simp
  from t have "center (getGeometry world0) =
      \<lparr>vec_x = js_div (win_w world0) (Fin 2), vec_y = js_div (win_h world0) (Fin 2)\<rparr>"
    by blast
  then have c: "center (getGeometry world0) = \<lparr>vec_x = Fin 500, vec_y = Fin 500\<rparr>"
    by (simp add: world0_size)
  from t have b: "bottomAxis (getGeometry world0) =
      add (center (getGeometry world0)) (rotate_vec \<lparr>vec_x = Fin 0, vec_y = ?a\<rparr> ?t)"
    by blast
  have b': "bottomAxis (getGeometry world0) = \<lparr>vec_x = Fin 500, vec_y = Fin 720\<rparr>"
    unfolding b r c by (simp add: add_def)
  from t have tp: "topAxis (getGeometry world0) =
      add (center (getGeometry world0)) (rotate_vec \<lparr>vec_x = Fin 0, vec_y = js_neg ?a\<rparr> ?t)"
    by blast
  from t have n: "rotate_vec \<lparr>vec_x = Fin 0, vec_y = js_neg ?a\<rparr> ?t
      = neg_vec (rotate_vec \<lparr>vec_x = Fin 0, vec_y = ?a\<rparr> ?t)"
    by blast
  have t': "topAxis (getGeometry world0) = \<lparr>vec_x = Fin 500, vec_y = Fin 280\<rparr>"
    unfolding tp n r c by (simp add: add_def neg_vec_def)
  show ?thesis
    using th a r c b' t' by blast
qed

text \<open>
  The claim as stated fails for a negative \<^verbatim>\<open>axisOffsetRatio\<close>: with \<open>-0.22\<close> the
  distance from the center to the top axis is 220 and \<^verbatim>\<open>axisOffset\<close> is \<open>-220\<close>.
\<close>

theorem axes_distance_not_axisOffset:
  "dist_vec (center (getGeometry negativeOffsetWorld)) (topAxis (getGeometry negativeOffsetWorld))
     = Fin 220
   \<and> js_mul (axisOffsetRatio (geometry (params negativeOffsetWorld)))
       (Math_min (win_w negativeOffsetWorld) (win_h negativeOffsetWorld))
     = Fin (- 220)
   \<and> dist_vec (center (getGeometry negativeOffsetWorld)) (topAxis (getGeometry negativeOffsetWorld))
     \<noteq> js_mul (axisOffsetRatio (geometry (params negativeOffsetWorld)))
         (Math_min (win_w negativeOffsetWorld) (win_h negativeOffsetWorld))"
proof -
  have h: "thetaGlobal (state (params negativeOffsetWorld)) = Fin 0"
    "win_w negativeOffsetWorld = Fin 1000" "win_h negativeOffsetWorld = Fin 1000"
    "axisOffsetRatio (geometry (params negativeOffsetWorld)) = Fin (- (22 / 100))"
    by (simp_all add: negativeOffsetWorld_def withGeometry_simps world0_size world0_params
        defaultParams_def)
  have a: "dist_vec (center (getGeometry negativeOffsetWorld))
      (topAxis (getGeometry negativeOffsetWorld)) = Fin 220"
    using axis_distance(1) [OF h] by simp
  have b: "js_mul (axisOffsetRatio (geometry (params negativeOffsetWorld)))
       (Math_min (win_w negativeOffsetWorld) (win_h negativeOffsetWorld)) = Fin (- 220)"
    by (simp add: h Math_min_Fin)
  show ?thesis
    unfolding a b by simp
qed

section \<open>Properties of the reset actions\<close>

lemma renderPausedState_simps:
  "params (renderPausedState s) = params s"
  "win_w (renderPausedState s) = win_w s"
  "win_h (renderPausedState s) = win_h s"
  "trailsCanvas (renderPausedState s) = trailsCanvas s"
  "points (renderPausedState s) =
     map (\<lambda>p. p\<lparr>now := Some (nextPositions (getGeometry s) (pid p)),
                 prev := Some (nextPositions (getGeometry s) (pid p))\<rparr>) (points s)"
  by (simp_all add: renderPausedState_def Let_def drawOverlay_def syncPointsToGeometry_def)

lemma getGeometry_renderPausedState: "getGeometry (renderPausedState s) = getGeometry s"
  by (rule getGeometry_cong) (simp_all add: renderPausedState_simps)

lemma resetAngles_alt:
  "actions_resetAngles s =
     (if running (params s) then zeroAngles s else renderPausedState (zeroAngles s))"
  by (simp add: actions_resetAngles_def zeroAngles_def Let_def)

lemma resetAngles_params:
  "params (actions_resetAngles s) = (params s)\<lparr>state := (state (params s))
                 \<lparr>thetaGlobal := Fin 0, thetaTop := Fin 0, thetaBottom := Fin 0\<rparr>\<rparr>"
  by (simp add: resetAngles_alt renderPausedState_simps zeroAngles_def)

lemma resetAngles_geometry:
  "getGeometry (actions_resetAngles s) = getGeometry (zeroAngles s)"
  by (simp add: resetAngles_alt getGeometry_renderPausedState)

lemma clearTrails_alt:
  "actions_clearTrails s =
     (if running (params s) then blankTimer s else renderPausedState (blankTimer s))"
  by (simp add: actions_clearTrails_def blankTimer_def Let_def clearTrails_def)

lemma clearTrails_params:
  "params (actions_clearTrails s) = (params s)\<lparr>state := (state (params s))\<lparr>timerMs := Fin 0\<rparr>\<rparr>"
  by (simp add: clearTrails_alt renderPausedState_simps blankTimer_def)

lemma clearTrails_geometry:
  "getGeometry (actions_clearTrails s) = getGeometry (blankTimer s)"
  by (simp add: clearTrails_alt getGeometry_renderPausedState)

lemma toLowerCase_r: "toLowerCase ''r'' = ''r''" "toLowerCase ''R'' = ''r''"
  by code_simp+

text \<open>
  Claim C4, as amended.  The reset-angles action sets \<^verbatim>\<open>thetaGlobal\<close>, \<^verbatim>\<open>thetaTop\<close> and
  \<^verbatim>\<open>thetaBottom\<close> to zero and leaves \<^verbatim>\<open>timerMs\<close> and the trail surface unchanged.  While
  running it leaves the traced points unchanged; while paused it repaints, which sets
  \<^verbatim>\<open>prev\<close> and \<^verbatim>\<open>now\<close> of every traced point to its position in the new geometry.
\<close>

theorem resetAngles_effect:
  "thetaGlobal (state (params (actions_resetAngles s))) = Fin 0
   \<and> thetaTop (state (params (actions_resetAngles s))) = Fin 0
   \<and> thetaBottom (state (params (actions_resetAngles s))) = Fin 0
   \<and> timerMs (state (params (actions_resetAngles s))) = timerMs (state (params s))
   \<and> trailsCanvas (actions_resetAngles s) = trailsCanvas s
   \<and> (running (params s) \<longrightarrow> points (actions_resetAngles s) = points s)
   \<and> (\<not> running (params s) \<longrightarrow>
        points (actions_resetAngles s) =
          map (\<lambda>p. p\<lparr>now := Some (nextPositions (getGeometry (actions_resetAngles s)) (pid p)),
                      prev := Some (nextPositions (getGeometry (actions_resetAngles s)) (pid p))\<rparr>)
            (points s))"
proof -
  have a: "trailsCanvas (actions_resetAngles s) = trailsCanvas s"
    by (simp add: resetAngles_alt renderPausedState_simps zeroAngles_def)
  have b: "running (params s) \<longrightarrow> points (actions_resetAngles s) = points s"
    by (simp add: resetAngles_alt zeroAngles_def)
  have c: "\<not> running (params s) \<longrightarrow>
        points (actions_resetAngles s) =
          map (\<lambda>p. p\<lparr>now := Some (nextPositions (getGeometry (actions_resetAngles s)) (pid p)),
                      prev := Some (nextPositions (getGeometry (actions_resetAngles s)) (pid p))\<rparr>)
            (points s)"
    unfolding resetAngles_geometry
    by (simp add: resetAngles_alt renderPausedState_simps) (simp add: zeroAngles_def)
  show ?thesis
    using a b c by (simp add: resetAngles_params)
qed

text \<open>
  Claim C10, as amended.  The clear-trails action blanks the trail surface, resets
  \<^verbatim>\<open>timerMs\<close> to zero and leaves the three angles unchanged.  While running it leaves all
  traced points absent; while paused it repaints after clearing, which sets \<^verbatim>\<open>prev\<close> and
  \<^verbatim>\<open>now\<close> of every traced point to its position in the current geometry.  A key event
  whose key is \<^verbatim>\<open>r\<close> or \<^verbatim>\<open>R\<close> (and whose code is not \<^verbatim>\<open>Space\<close>) runs this action.
\<close>

theorem clearTrails_effect:
  "timerMs (state (params (actions_clearTrails s))) = Fin 0
   \<and> thetaGlobal (state (params (actions_clearTrails s))) = thetaGlobal (state (params s))
   \<and> thetaTop (state (params (actions_clearTrails s))) = thetaTop (state (params s))
   \<and> thetaBottom (state (params (actions_clearTrails s))) = thetaBottom (state (params s))
   \<and> trailsCanvas (actions_clearTrails s) = []
   \<and> (running (params s) \<longrightarrow>
        (\<forall>p \<in> set (points (actions_clearTrails s)). prev p = None \<and> now p = None))
   \<and> (\<not> running (params s) \<longrightarrow>
        points (actions_clearTrails s) =
          map (\<lambda>p. p\<lparr>now := Some (nextPositions (getGeometry (actions_clearTrails s)) (pid p)),
                      prev := Some (nextPositions (getGeometry (actions_clearTrails s)) (pid p))\<rparr>)
            (points s))
   \<and> (ev_code e \<noteq> ''Space'' \<and> toLowerCase (ev_key e) = ''r'' \<longrightarrow>
        onKeyDown setValue e s = actions_clearTrails s)"
proof -
  have a: "trailsCanvas (actions_clearTrails s) = []"
    by (simp add: clearTrails_alt renderPausedState_simps blankTimer_def clearTrails_def)
  have b: "running (params s) \<longrightarrow>
        (\<forall>p \<in> set (points (actions_clearTrails s)). prev p = None \<and> now p = None)"
    by (auto simp: clearTrails_alt blankTimer_def clearTrails_def)
  have c: "\<not> running (params s) \<longrightarrow>
        points (actions_clearTrails s) =
          map (\<lambda>p. p\<lparr>now := Some (nextPositions (getGeometry (actions_clearTrails s)) (pid p)),
                      prev := Some (nextPositions (getGeometry (actions_clearTrails s)) (pid p))\<rparr>)
            (points s)"
    unfolding clearTrails_geometry
    by (simp add: clearTrails_alt renderPausedState_simps) (simp add: blankTimer_def clearTrails_def)
  have d: "ev_code e \<noteq> ''Space'' \<and> toLowerCase (ev_key e) = ''r'' \<longrightarrow>
        onKeyDown setValue e s = actions_clearTrails s"
    by (simp add: onKeyDown_def)
  show ?thesis
    using a b c d by (simp add: clearTrails_params)
qed

lemma getGeometry_blankTimer: "getGeometry (blankTimer s) = getGeometry s"
  by (simp add: getGeometry_def blankTimer_def clearTrails_def)

lemma pausedAtOne_params:
  "params pausedAtOne = defaultParams\<lparr>running := False,
      state := (state defaultParams)\<lparr>thetaGlobal := Fin 1\<rparr>\<rparr>"
  by (simp add: pausedAtOne_def renderPausedState_simps withRunning_def withState_def world0_params)

lemma pausedAtOne_size: "win_w pausedAtOne = Fin 1000" "win_h pausedAtOne = Fin 1000"
  by (simp_all add: pausedAtOne_def renderPausedState_simps withRunning_def withState_def world0_size)

lemma pausedAtOne_geometry:
  "getGeometry pausedAtOne =
     getGeometry (withRunning False (withState ((state defaultParams)\<lparr>thetaGlobal := Fin 1\<rparr>) world0))"
  by (simp add: pausedAtOne_def getGeometry_renderPausedState)

lemma pausedAtOne_points:
  "points pausedAtOne =
     map (\<lambda>p. p\<lparr>now := Some (nextPositions (getGeometry pausedAtOne) (pid p)),
                 prev := Some (nextPositions (getGeometry pausedAtOne) (pid p))\<rparr>) initialPoints"
  unfolding pausedAtOne_geometry
  by (simp add: pausedAtOne_def renderPausedState_simps withRunning_def withState_def
      world0_def initialWorld_def)

lemma pausedAtOne_topL_x:
  "vec_x (topL (getGeometry pausedAtOne)) = Fin (500 + 220 * sin 1 - 180 * cos 1)"
  by (simp add: getGeometry_def Let_def pausedAtOne_params pausedAtOne_size defaultParams_def
      Math_min_Fin rotate_Fin add_Fin degToRad_zero)

lemma zeroed_pausedAtOne_topL:
  "topL (getGeometry (zeroAngles pausedAtOne)) = \<lparr>vec_x = Fin 320, vec_y = Fin 280\<rparr>"
  by (simp add: getGeometry_def Let_def zeroAngles_def pausedAtOne_params pausedAtOne_size
      defaultParams_def Math_min_Fin rotate_Fin add_Fin degToRad_zero)

lemma moved_topL: "500 + 220 * sin 1 - 180 * cos 1 \<noteq> (320::real)"
proof -
  have "0 < sin (1::real)"
    by (rule sin_gt_zero_02) simp_all
  moreover have "cos (1::real) \<le> 1"
    by (rule cos_le_one)
  ultimately show ?thesis
    by linarith
qed

text \<open>
  In the running start-up state the action leaves the points as they are; in the
  paused state it moves the first point to (320,280), its place when all angles are zero.
\<close>

theorem resetAngles_effect_example:
  "running (params world0)
   \<and> points (actions_resetAngles world0) = points world0
   \<and> \<not> running (params pausedAtOne)
   \<and> now (hd (points (actions_resetAngles pausedAtOne))) = Some \<lparr>vec_x = Fin 320, vec_y = Fin 280\<rparr>
   \<and> prev (hd (points (actions_resetAngles pausedAtOne))) = Some \<lparr>vec_x = Fin 320, vec_y = Fin 280\<rparr>"
proof -
  have r: "running (params world0)"
    by (simp add: world0_params defaultParams_def)
  have p: "\<not> running (params pausedAtOne)"
    by (simp add: pausedAtOne_params)
  have a: "points (actions_resetAngles world0) = points world0"
    using resetAngles_effect [of world0] r by blast
  have "points (actions_resetAngles pausedAtOne) =
          map (\<lambda>p. p\<lparr>now := Some (nextPositions (getGeometry (actions_resetAngles pausedAtOne)) (pid p)),
                      prev := Some (nextPositions (getGeometry (actions_resetAngles pausedAtOne)) (pid p))\<rparr>)
            (points pausedAtOne)"
    using resetAngles_effect [of pausedAtOne] p by blast
  then have b: "now (hd (points (actions_resetAngles pausedAtOne))) = Some \<lparr>vec_x = Fin 320, vec_y = Fin 280\<rparr>
      \<and> prev (hd (points (actions_resetAngles pausedAtOne))) = Some \<lparr>vec_x = Fin 320, vec_y = Fin 280\<rparr>"
    by (simp add: pausedAtOne_points initialPoints_def resetAngles_geometry zeroed_pausedAtOne_topL)
  show ?thesis
    using r p a b by blast
qed

text \<open>
  The claim as stated fails twice.  After one frame the timer shows 50 ms, and the
  action leaves it at 50 ms.  In the paused state the traced points do not stay as they
  are: the first point moves.
\<close>

theorem resetAngles_keeps_timer:
  "timerMs (state (params (step (Fin 1) world0))) = Fin 50
   \<and> timerMs (state (params (actions_resetAngles (step (Fin 1) world0)))) \<noteq> Fin 0
   \<and> points (actions_resetAngles pausedAtOne) \<noteq> points pausedAtOne"
proof -
  have t: "timerMs (state (params (step (Fin 1) world0))) = Fin 50"
    by (simp add: state_step Let_def world0_params defaultParams_def effectiveStep_def clamp_Fin)
  have u: "timerMs (state (params (actions_resetAngles (step (Fin 1) world0)))) \<noteq> Fin 0"
    by (simp add: resetAngles_params t)
  have p: "\<not> running (params pausedAtOne)"
    by (simp add: pausedAtOne_params)
  have n1: "now (hd (points (actions_resetAngles pausedAtOne))) =
      Some (topL (getGeometry (zeroAngles pausedAtOne)))"
    using p by (simp add: resetAngles_alt renderPausedState_simps)
      (simp add: zeroAngles_def pausedAtOne_points initialPoints_def)
  have n2: "now (hd (points pausedAtOne)) = Some (topL (getGeometry pausedAtOne))"
    by (simp add: pausedAtOne_points initialPoints_def)
  have "topL (getGeometry (zeroAngles pausedAtOne)) \<noteq> topL (getGeometry pausedAtOne)"
  proof
    assume "topL (getGeometry (zeroAngles pausedAtOne)) = topL (getGeometry pausedAtOne)"
    then have "topL (getGeometry pausedAtOne) = \<lparr>vec_x = Fin 320, vec_y = Fin 280\<rparr>"
      by (simp only: zeroed_pausedAtOne_topL)
    then have "vec_x (topL (getGeometry pausedAtOne)) = Fin 320"
      by simp
    then show False
      using moved_topL by (simp add: pausedAtOne_topL_x)
  qed
  then have "points (actions_resetAngles pausedAtOne) \<noteq> points pausedAtOne"
    using n1 n2 by auto
  then show ?thesis
    using t u by blast
qed

text \<open>
  In the running start-up state the action leaves the first point absent; in the paused
  state it leaves the first point at its place in the current geometry; the key
  \<^verbatim>\<open>R\<close> runs the action.
\<close>

theorem clearTrails_effect_example:
  "running (params world0)
   \<and> hd (points (actions_clearTrails world0)) \<in> set (points (actions_clearTrails world0))
   \<and> prev (hd (points (actions_clearTrails world0))) = None
   \<and> now (hd (points (actions_clearTrails world0))) = None
   \<and> \<not> running (params pausedAtOne)
   \<and> now (hd (points (actions_clearTrails pausedAtOne))) = Some (topL (getGeometry pausedAtOne))
   \<and> ev_code \<lparr>ev_code = ''KeyR'', ev_key = ''R''\<rparr> \<noteq> ''Space''
   \<and> toLowerCase (ev_key \<lparr>ev_code = ''KeyR'', ev_key = ''R''\<rparr>) = ''r''
   \<and> onKeyDown (\<lambda>b s. s) \<lparr>ev_code = ''KeyR'', ev_key = ''R''\<rparr> world0 = actions_clearTrails world0"
proof -
  have r: "running (params world0)"
    by (simp add: world0_params defaultParams_def)
  have p: "\<not> running (params pausedAtOne)"
    by (simp add: pausedAtOne_params)
  have ne: "points (actions_clearTrails world0) \<noteq> []"
    using r by (simp add: clearTrails_alt blankTimer_def clearTrails_def world0_def
        initialWorld_def initialPoints_def)
  then have m: "hd (points (actions_clearTrails world0)) \<in> set (points (actions_clearTrails world0))"
    by simp
  have "\<forall>p \<in> set (points (actions_clearTrails world0)). prev p = None \<and> now p = None"
    using clearTrails_effect [of world0] r by blast
  then have a: "prev (hd (points (actions_clearTrails world0))) = None
      \<and> now (hd (points (actions_clearTrails world0))) = None"
    using m by blast
  have "points (actions_clearTrails pausedAtOne) =
          map (\<lambda>p. p\<lparr>now := Some (nextPositions (getGeometry (actions_clearTrails pausedAtOne)) (pid p)),
                      prev := Some (nextPositions (getGeometry (actions_clearTrails pausedAtOne)) (pid p))\<rparr>)
            (points pausedAtOne)"
    using clearTrails_effect [of pausedAtOne] p by blast
  moreover have "getGeometry (actions_clearTrails pausedAtOne) = getGeometry pausedAtOne"
    by (simp only: clearTrails_geometry getGeometry_blankTimer)
  ultimately have b: "now (hd (points (actions_clearTrails pausedAtOne)))
      = Some (topL (getGeometry pausedAtOne))"
    by (simp add: pausedAtOne_points initialPoints_def)
  have k1: "ev_code \<lparr>ev_code = ''KeyR'', ev_key = ''R''\<rparr> \<noteq> ''Space''"
    by simp
  have k2: "toLowerCase (ev_key \<lparr>ev_code = ''KeyR'', ev_key = ''R''\<rparr>) = ''r''"
    by (simp add: toLowerCase_r)
  have c: "onKeyDown (\<lambda>b s. s) \<lparr>ev_code = ''KeyR'', ev_key = ''R''\<rparr> world0 = actions_clearTrails world0"
    using clearTrails_effect [of world0 "\<lparr>ev_code = ''KeyR'', ev_key = ''R''\<rparr>" "\<lambda>b s. s"] k1 k2
    by blast
  show ?thesis
    using r m a p b k1 k2 c by blast
qed

text \<open>
  The claim as stated fails while paused: after the action the traced points are not
  absent, the first one is at its place in the current geometry.
\<close>

theorem clearTrails_paused_points_present:
  "\<not> running (params pausedAtOne)
   \<and> now (hd (points (actions_clearTrails pausedAtOne))) \<noteq> None
   \<and> prev (hd (points (actions_clearTrails pausedAtOne))) \<noteq> None"
proof -
  have p: "\<not> running (params pausedAtOne)"
    by (simp add: pausedAtOne_params)
  have "now (hd (points (actions_clearTrails pausedAtOne))) \<noteq> None
      \<and> prev (hd (points (actions_clearTrails pausedAtOne))) \<noteq> None"
    using p by (simp add: clearTrails_alt renderPausedState_simps)
      (simp add: blankTimer_def clearTrails_def pausedAtOne_points initialPoints_def)
  then show ?thesis
    using p by blast
qed

section \<open>Properties of the vortex velocity field\<close>

lemma square_nonneg: "nonneg_or_nan (js_mul a a)"
  by (cases a) (simp_all add: nonneg_or_nan_def js_le_def not_less)

lemma add_nonneg: "nonneg_or_nan a \<Longrightarrow> nonneg_or_nan b \<Longrightarrow> nonneg_or_nan (js_add a b)"
  by (cases a; cases b) (simp_all add: nonneg_or_nan_def js_le_def not_less)

lemma add_positive: "nonneg_or_nan a \<Longrightarrow> js_lt (Fin 0) b \<Longrightarrow> positive_or_nan (js_add a b)"
  by (cases a; cases b) (simp_all add: nonneg_or_nan_def positive_or_nan_def js_le_def not_less)

lemma TWO_PI_Fin: "TWO_PI = Fin (2 * pi)"
  by (simp add: TWO_PI_def Math_PI_def mult.commute)

lemma mul_TWO_PI_positive: "positive_or_nan r \<Longrightarrow> positive_or_nan (js_mul TWO_PI r)"
  by (cases r) (simp_all add: positive_or_nan_def TWO_PI_Fin signed_inf_def)

lemma positive_nonzero: "positive_or_nan r \<Longrightarrow> r \<noteq> Fin 0"
  by (auto simp: positive_or_nan_def)

lemma divisor_positive_or_nan:
  assumes "js_lt (Fin 0) epsilon"
  shows "positive_or_nan (velocityDivisor v point epsilon)"
  unfolding velocityDivisor_def Let_def
  by (intro mul_TWO_PI_positive add_positive add_nonneg square_nonneg assms)

lemma js_div_Fin_nonzero: "b \<noteq> 0 \<Longrightarrow> js_div (Fin a) (Fin b) = Fin (a / b)"
  by simp

lemma divisor_of_differences:
  assumes "js_sub (vec_x point) (vec_x (position v)) = Fin a"
    and "js_sub (vec_y point) (vec_y (position v)) = Fin b"
  shows "velocityDivisor v point (Fin e) = Fin (2 * pi * (a * a + b * b + e))"
  using assms by (simp add: velocityDivisor_def TWO_PI_Fin)

lemma divisor_of_differences_positive:
  assumes "0 < e"
  shows "2 * pi * (a * a + b * b + (e::real)) \<noteq> 0"
proof -
  have "0 \<le> a * a" and "0 \<le> b * b"
    by simp_all
  then have "0 < a * a + b * b + e"
    using assms by linarith
  then show ?thesis
    by simp
qed

lemma velocityAt_of_differences:
  assumes "0 < e"
    and "js_sub (vec_x point) (vec_x (position v)) = Fin a"
    and "js_sub (vec_y point) (vec_y (position v)) = Fin b"
    and "gamma v = Fin g"
  shows "velocityAt v point (Fin e) out =
           set_vec out (Fin (g / (2 * pi * (a * a + b * b + e)) * (- b)))
                       (Fin (g / (2 * pi * (a * a + b * b + e)) * a))"
proof -
  let ?d = "2 * pi * (a * a + b * b + e)"
  have d: "velocityDivisor v point (Fin e) = Fin ?d"
    using assms(2,3) by (rule divisor_of_differences)
  have q: "js_div (Fin g) (Fin ?d) = Fin (g / ?d)"
    using divisor_of_differences_positive [OF assms(1)] by (rule js_div_Fin_nonzero)
  show ?thesis
    unfolding velocityAt_def Let_def d assms(2-4) q by simp
qed

text \<open>
  Claim C9, as amended.  For every vortex, every evaluation point and every
  \<^verbatim>\<open>epsilon\<close> greater than zero, the divisor \<^verbatim>\<open>TWO_PI * r2\<close> of \<^verbatim>\<open>velocityAt\<close> is never
  zero: it is greater than zero or \<^verbatim>\<open>NaN\<close>.  The components written to \<^verbatim>\<open>out\<close> are
  \<^verbatim>\<open>factor * (-dy)\<close> and \<^verbatim>\<open>factor * dx\<close> with \<^verbatim>\<open>factor = gamma / divisor\<close>.  When the
  differences \<^verbatim>\<open>dx\<close>, \<^verbatim>\<open>dy\<close> and the circulation are finite and \<^verbatim>\<open>epsilon\<close> is finite and
  at least 1, both components are finite, and they are zero when both differences are
  zero, that is at the vortex position.
\<close>

theorem velocityAt_total:
  assumes "js_lt (Fin 0) epsilon"
  shows "velocityDivisor v point epsilon \<noteq> Fin 0
       \<and> positive_or_nan (velocityDivisor v point epsilon)
       \<and> velocityAt v point epsilon out =
           set_vec out
             (js_mul (js_div (gamma v) (velocityDivisor v point epsilon))
                (js_neg (js_sub (vec_y point) (vec_y (position v)))))
             (js_mul (js_div (gamma v) (velocityDivisor v point epsilon))
                (js_sub (vec_x point) (vec_x (position v))))
       \<and> (is_fin (js_sub (vec_x point) (vec_x (position v)))
            \<and> is_fin (js_sub (vec_y point) (vec_y (position v)))
            \<and> is_fin (gamma v) \<and> epsilon = Fin e \<and> 1 \<le> e \<longrightarrow>
          is_fin (vec_x (velocityAt v point epsilon out))
          \<and> is_fin (vec_y (velocityAt v point epsilon out)))
       \<and> (js_sub (vec_x point) (vec_x (position v)) = Fin 0
            \<and> js_sub (vec_y point) (vec_y (position v)) = Fin 0
            \<and> is_fin (gamma v) \<and> epsilon = Fin e \<and> 1 \<le> e \<longrightarrow>
          velocityAt v point epsilon out = set_vec out (Fin 0) (Fin 0))"
proof -
  have p: "positive_or_nan (velocityDivisor v point epsilon)"
    using assms by (rule divisor_positive_or_nan)
  have nz: "velocityDivisor v point epsilon \<noteq> Fin 0"
    using p by (rule positive_nonzero)
  have ex: "velocityAt v point epsilon out =
           set_vec out
             (js_mul (js_div (gamma v) (velocityDivisor v point epsilon))
                (js_neg (js_sub (vec_y point) (vec_y (position v)))))
             (js_mul (js_div (gamma v) (velocityDivisor v point epsilon))
                (js_sub (vec_x point) (vec_x (position v))))"
    by (simp add: velocityAt_def Let_def)
  have fin: "is_fin (vec_x (velocityAt v point epsilon out))
          \<and> is_fin (vec_y (velocityAt v point epsilon out))"
    if h: "is_fin (js_sub (vec_x point) (vec_x (position v)))"
      "is_fin (js_sub (vec_y point) (vec_y (position v)))"
      "is_fin (gamma v)" "epsilon = Fin e" "1 \<le> e"
  proof -
    obtain a b g where abg: "js_sub (vec_x point) (vec_x (position v)) = Fin a"
      "js_sub (vec_y point) (vec_y (position v)) = Fin b" "gamma v = Fin g"
      using h(1-3) by (auto simp: is_fin_iff)
    have e: "0 < e"
      using h(5) by simp
    show ?thesis
      unfolding h(4) velocityAt_of_differences [OF e abg] by (simp add: set_vec_def is_fin_def)
  qed
  have core: "velocityAt v point epsilon out = set_vec out (Fin 0) (Fin 0)"
    if h: "js_sub (vec_x point) (vec_x (position v)) = Fin 0"
      "js_sub (vec_y point) (vec_y (position v)) = Fin 0"
      "is_fin (gamma v)" "epsilon = Fin e" "1 \<le> e"
  proof -
    obtain g where g: "gamma v = Fin g"
      using h(3) by (auto simp: is_fin_iff)
    have e: "0 < e"
      using h(5) by simp
    show ?thesis
      unfolding h(4) velocityAt_of_differences [OF e h(1,2) g] by simp
  qed
  show ?thesis
    using nz p ex fin core by blast
qed

text \<open>
  At the vortex core, with \<^verbatim>\<open>EPSILON = 25\<close> and the circulation of the center vortex:
  the divisor is not zero and the velocity written to \<^verbatim>\<open>out\<close> is zero.
\<close>

theorem velocityAt_total_at_core:
  "js_lt (Fin 0) EPSILON
   \<and> EPSILON = Fin 25 \<and> (1::real) \<le> 25
   \<and> js_sub (vec_x \<lparr>vec_x = Fin 100, vec_y = Fin 200\<rparr>)
        (vec_x (position \<lparr>position = \<lparr>vec_x = Fin 100, vec_y = Fin 200\<rparr>, gamma = Fin 300000\<rparr>))
       = Fin 0
   \<and> js_sub (vec_y \<lparr>vec_x = Fin 100, vec_y = Fin 200\<rparr>)
        (vec_y (position \<lparr>position = \<lparr>vec_x = Fin 100, vec_y = Fin 200\<rparr>, gamma = Fin 300000\<rparr>))
       = Fin 0
   \<and> is_fin (gamma \<lparr>position = \<lparr>vec_x = Fin 100, vec_y = Fin 200\<rparr>, gamma = Fin 300000\<rparr>)
   \<and> velocityDivisor \<lparr>position = \<lparr>vec_x = Fin 100, vec_y = Fin 200\<rparr>, gamma = Fin 300000\<rparr>
        \<lparr>vec_x = Fin 100, vec_y = Fin 200\<rparr> EPSILON \<noteq> Fin 0
   \<and> velocityAt \<lparr>position = \<lparr>vec_x = Fin 100, vec_y = Fin 200\<rparr>, gamma = Fin 300000\<rparr>
        \<lparr>vec_x = Fin 100, vec_y = Fin 200\<rparr> EPSILON \<lparr>vec_x = Fin 7, vec_y = Fin 9\<rparr>
       = \<lparr>vec_x = Fin 0, vec_y = Fin 0\<rparr>"
proof -
  let ?v = "\<lparr>position = \<lparr>vec_x = Fin 100, vec_y = Fin 200\<rparr>, gamma = Fin 300000\<rparr>"
  let ?p = "\<lparr>vec_x = Fin 100, vec_y = Fin 200\<rparr>"
  have h: "js_lt (Fin 0) EPSILON"
    by (simp add: EPSILON_def)
  have e: "EPSILON = Fin 25 \<and> (1::real) \<le> 25"
    by (simp add: EPSILON_def)
  have dx: "js_sub (vec_x ?p) (vec_x (position ?v)) = Fin 0"
    by (simp add: js_sub_def)
  have dy: "js_sub (vec_y ?p) (vec_y (position ?v)) = Fin 0"
    by (simp add: js_sub_def)
  have g: "is_fin (gamma ?v)"
    by (simp add: is_fin_def)
  note t = velocityAt_total [OF h, where v = ?v and point = ?p and e = 25
      and out = "\<lparr>vec_x = Fin 7, vec_y = Fin 9\<rparr>"]
  from t have nz: "velocityDivisor ?v ?p EPSILON \<noteq> Fin 0"
    by blast
  from t e dx dy g have "velocityAt ?v ?p EPSILON \<lparr>vec_x = Fin 7, vec_y = Fin 9\<rparr>
      = set_vec \<lparr>vec_x = Fin 7, vec_y = Fin 9\<rparr> (Fin 0) (Fin 0)"
    by blast
  then have z: "velocityAt ?v ?p EPSILON \<lparr>vec_x = Fin 7, vec_y = Fin 9\<rparr>
      = \<lparr>vec_x = Fin 0, vec_y = Fin 0\<rparr>"
    by (simp add: set_vec_def)
  show ?thesis
    using h e dx dy g nz z by blast
qed

text \<open>
  The claim as stated fails: \<^verbatim>\<open>epsilon\<close> keeps the divisor away from zero, not the
  result away from \<^verbatim>\<open>NaN\<close>.  With \<^verbatim>\<open>EPSILON = 25\<close>: for an evaluation point whose x
  coordinate is infinite the divisor is infinite, the factor is zero, and the y component
  is \<^verbatim>\<open>0 * Infinity\<close>; and at the position of a vortex of infinite circulation the factor
  is infinite and both components are \<^verbatim>\<open>Infinity * 0\<close>.
\<close>

theorem velocityAt_nan_component:
  "js_lt (Fin 0) EPSILON
   \<and> velocityDivisor \<lparr>position = \<lparr>vec_x = Fin 100, vec_y = Fin 200\<rparr>, gamma = Fin 300000\<rparr>
        \<lparr>vec_x = PosInf, vec_y = Fin 200\<rparr> EPSILON = PosInf
   \<and> vec_y (velocityAt \<lparr>position = \<lparr>vec_x = Fin 100, vec_y = Fin 200\<rparr>, gamma = Fin 300000\<rparr>
        \<lparr>vec_x = PosInf, vec_y = Fin 200\<rparr> EPSILON \<lparr>vec_x = Fin 0, vec_y = Fin 0\<rparr>) = NaN
   \<and> velocityDivisor \<lparr>position = \<lparr>vec_x = Fin 100, vec_y = Fin 200\<rparr>, gamma = PosInf\<rparr>
        \<lparr>vec_x = Fin 100, vec_y = Fin 200\<rparr> EPSILON = Fin (50 * pi)
   \<and> velocityAt \<lparr>position = \<lparr>vec_x = Fin 100, vec_y = Fin 200\<rparr>, gamma = PosInf\<rparr>
        \<lparr>vec_x = Fin 100, vec_y = Fin 200\<rparr> EPSILON \<lparr>vec_x = Fin 0, vec_y = Fin 0\<rparr>
       = \<lparr>vec_x = NaN, vec_y = NaN\<rparr>"
  by (simp add: EPSILON_def velocityAt_def velocityDivisor_def Let_def TWO_PI_Fin js_sub_def
      set_vec_def signed_inf_def)

end
